theory Spec2Isabelle
  imports Complex_Main "HOL-Library.Multiset"
begin

section \<open>Values held in the diagnostics file\<close>

text \<open>
  \<^verbatim>\<open>hooks/diagnostics_parser.py\<close> reads \<^verbatim>\<open>vscode-diagnostics.json\<close> with
  \<^verbatim>\<open>json.loads\<close> and then works on whatever Python value came back. The model keeps
  every kind of value \<^verbatim>\<open>json.loads\<close> can return, because the code's behaviour on a value
  of the wrong kind (an exception) is part of what is verified.

  A Python \<^verbatim>\<open>str\<close> is modelled as its UTF-8 bytes (\<open>string\<close>), the form in which the
  report leaves the process. The only operations of the code that look inside a string read
  from the file are \<^verbatim>\<open>len\<close> and iteration of a string found where a list was expected,
  and both are followed by an \<^verbatim>\<open>AttributeError\<close> on the first element unless the string
  is empty, so the difference between bytes and code points is never observable.

  A Python \<^verbatim>\<open>float\<close> is a rational or one of the special values; a \<^verbatim>\<open>dict\<close> is an
  association list read with \<open>map_of\<close> (\<^verbatim>\<open>json.loads\<close> yields each key once).
\<close>

datatype pyfloat = Finite rat | NegZero | PosInf | NegInf | NaN

datatype json =
    JNull
  | JBool bool
  | JInt int
  | JFloat pyfloat
  | JStr string
  | JArr "json list"
  | JObj "(string \<times> json) list"

text \<open>The exceptions the modelled code can raise.\<close>

datatype py_error =
    TypeError
  | AttributeError
  | KeyError
  | UnicodeDecodeError
  | UnicodeEncodeError
  | RecursionError
  | ValueError

definition bind_err :: "'e + 'a \<Rightarrow> ('a \<Rightarrow> 'e + 'b) \<Rightarrow> 'e + 'b" where
  "bind_err r f = (case r of Inl e \<Rightarrow> Inl e | Inr v \<Rightarrow> f v)"

subsection \<open>The Python operations the code applies to these values\<close>

text \<open>\<^verbatim>\<open>not x\<close> is \<open>\<not> py_truthy x\<close>.\<close>

fun py_truthy :: "json \<Rightarrow> bool" where
  "py_truthy JNull = False"
| "py_truthy (JBool b) = b"
| "py_truthy (JInt i) = (i \<noteq> 0)"
| "py_truthy (JFloat f) = (f \<noteq> Finite 0 \<and> f \<noteq> NegZero)"
| "py_truthy (JStr s) = (s \<noteq> [])"
| "py_truthy (JArr xs) = (xs \<noteq> [])"
| "py_truthy (JObj kv) = (kv \<noteq> [])"

text \<open>\<^verbatim>\<open>for x in v\<close>: a list yields its elements, a dict its keys, a string its
  characters; anything else is not iterable.\<close>

fun py_iter :: "json \<Rightarrow> py_error + json list" where
  "py_iter (JArr xs) = Inr xs"
| "py_iter (JObj kv) = Inr (map (\<lambda>p. JStr (fst p)) kv)"
| "py_iter (JStr s) = Inr (map (\<lambda>c. JStr [c]) s)"
| "py_iter JNull = Inl TypeError"
| "py_iter (JBool b) = Inl TypeError"
| "py_iter (JInt i) = Inl TypeError"
| "py_iter (JFloat f) = Inl TypeError"

text \<open>\<^verbatim>\<open>len(v)\<close>.\<close>

fun py_len :: "json \<Rightarrow> py_error + nat" where
  "py_len (JArr xs) = Inr (length xs)"
| "py_len (JObj kv) = Inr (length kv)"
| "py_len (JStr s) = Inr (length s)"
| "py_len JNull = Inl TypeError"
| "py_len (JBool b) = Inl TypeError"
| "py_len (JInt i) = Inl TypeError"
| "py_len (JFloat f) = Inl TypeError"

text \<open>\<^verbatim>\<open>v.get(k, dflt)\<close>: only a dict has the method.\<close>

fun py_get :: "json \<Rightarrow> string \<Rightarrow> json \<Rightarrow> py_error + json" where
  "py_get (JObj kv) k dflt = Inr (case map_of kv k of None \<Rightarrow> dflt | Some v \<Rightarrow> v)"
| "py_get JNull k dflt = Inl AttributeError"
| "py_get (JBool b) k dflt = Inl AttributeError"
| "py_get (JInt i) k dflt = Inl AttributeError"
| "py_get (JFloat f) k dflt = Inl AttributeError"
| "py_get (JStr s) k dflt = Inl AttributeError"
| "py_get (JArr xs) k dflt = Inl AttributeError"

text \<open>\<^verbatim>\<open>v[k]\<close> with a string key.\<close>

fun py_getitem :: "json \<Rightarrow> string \<Rightarrow> py_error + json" where
  "py_getitem (JObj kv) k = (case map_of kv k of None \<Rightarrow> Inl KeyError | Some v \<Rightarrow> Inr v)"
| "py_getitem JNull k = Inl TypeError"
| "py_getitem (JBool b) k = Inl TypeError"
| "py_getitem (JInt i) k = Inl TypeError"
| "py_getitem (JFloat f) k = Inl TypeError"
| "py_getitem (JStr s) k = Inl TypeError"
| "py_getitem (JArr xs) k = Inl TypeError"

text \<open>A list or a dict cannot be a dictionary key.\<close>

fun hashable :: "json \<Rightarrow> bool" where
  "hashable (JArr xs) = False"
| "hashable (JObj kv) = False"
| "hashable JNull = True"
| "hashable (JBool b) = True"
| "hashable (JInt i) = True"
| "hashable (JFloat f) = True"
| "hashable (JStr s) = True"

text \<open>The integer a value compares equal to, if any: in Python \<^verbatim>\<open>True == 1\<close>,
  \<^verbatim>\<open>False == 0\<close> and \<^verbatim>\<open>2.0 == 2\<close>, both for \<^verbatim>\<open>==\<close> and as dictionary keys.\<close>

fun int_key :: "json \<Rightarrow> int option" where
  "int_key (JInt i) = Some i"
| "int_key (JBool b) = Some (if b then 1 else 0)"
| "int_key (JFloat (Finite r)) = (if of_int \<lfloor>r\<rfloor> = r then Some \<lfloor>r\<rfloor> else None)"
| "int_key (JFloat NegZero) = Some 0"
| "int_key (JFloat PosInf) = None"
| "int_key (JFloat NegInf) = None"
| "int_key (JFloat NaN) = None"
| "int_key JNull = None"
| "int_key (JStr s) = None"
| "int_key (JArr xs) = None"
| "int_key (JObj kv) = None"

text \<open>\<^verbatim>\<open>v == n\<close> for an integer literal \<open>n\<close>.\<close>

definition py_eq_int :: "json \<Rightarrow> int \<Rightarrow> bool" where
  "py_eq_int v n = (int_key v = Some n)"

subsection \<open>The severity tables\<close>

definition SEVERITY_MAP :: "(int \<times> string) list" where
  "SEVERITY_MAP = [(0, ''Error''), (1, ''Warning''), (2, ''Information''), (3, ''Hint'')]"

text \<open>The icons, as UTF-8: U+274C; U+26A0 U+FE0F; U+2139 U+FE0F; U+1F4A1; and U+1F4CB for a
  label that has no icon.\<close>

definition icon_error :: string where
  "icon_error = [CHR 0xE2, CHR 0x9D, CHR 0x8C]"

definition icon_warning :: string where
  "icon_warning = [CHR 0xE2, CHR 0x9A, CHR 0xA0, CHR 0xEF, CHR 0xB8, CHR 0x8F]"

definition icon_information :: string where
  "icon_information = [CHR 0xE2, CHR 0x84, CHR 0xB9, CHR 0xEF, CHR 0xB8, CHR 0x8F]"

definition icon_hint :: string where
  "icon_hint = [CHR 0xF0, CHR 0x9F, CHR 0x92, CHR 0xA1]"

definition icon_default :: string where
  "icon_default = [CHR 0xF0, CHR 0x9F, CHR 0x93, CHR 0x8B]"

definition SEVERITY_ICONS :: "(string \<times> string) list" where
  "SEVERITY_ICONS = [(''Error'', icon_error), (''Warning'', icon_warning),
     (''Information'', icon_information), (''Hint'', icon_hint)]"

text \<open>\<^verbatim>\<open>self.SEVERITY_MAP.get(k, dflt)\<close>: hashing an unhashable key raises.\<close>

definition severity_map_get :: "json \<Rightarrow> string \<Rightarrow> py_error + string" where
  "severity_map_get k dflt =
     (if \<not> hashable k then Inl TypeError
      else Inr (case int_key k of
                  None \<Rightarrow> dflt
                | Some i \<Rightarrow> (case map_of SEVERITY_MAP i of None \<Rightarrow> dflt | Some l \<Rightarrow> l)))"

text \<open>\<^verbatim>\<open>self.SEVERITY_MAP.get(diag.get("severity", 0), "Unknown")\<close>, the label of one
  entry.\<close>

definition severity_name_of :: "json \<Rightarrow> py_error + string" where
  "severity_name_of diag =
     bind_err (py_get diag ''severity'' (JInt 0)) (\<lambda>v. severity_map_get v ''Unknown'')"

section \<open>The Statistics Aggregator: \<^verbatim>\<open>analyze_statistics\<close>\<close>

text \<open>A \<^verbatim>\<open>Counter\<close> reads a missing key as 0 and stores only the keys that were
  incremented; \<^verbatim>\<open>dict(severity_count)\<close> keeps exactly those keys. Python compares dicts
  without regard to insertion order, so the counter is a map.\<close>

definition counter_get :: "(string \<rightharpoonup> nat) \<Rightarrow> string \<Rightarrow> nat" where
  "counter_get c k = (case c k of None \<Rightarrow> 0 | Some n \<Rightarrow> n)"

definition counter_incr :: "(string \<rightharpoonup> nat) \<Rightarrow> string \<Rightarrow> (string \<rightharpoonup> nat)" where
  "counter_incr c k = c(k \<mapsto> counter_get c k + 1)"

record statistics =
  total_files :: nat
  total_diagnostics :: nat
  by_severity :: "string \<rightharpoonup> nat"

text \<open>The inner loop, \<^verbatim>\<open>for diag in diagnostics\<close>.\<close>

fun count_severities :: "json list \<Rightarrow> (string \<rightharpoonup> nat) \<Rightarrow> py_error + (string \<rightharpoonup> nat)" where
  "count_severities [] severity_count = Inr severity_count"
| "count_severities (diag # rest) severity_count =
     (case severity_name_of diag of
        Inl e \<Rightarrow> Inl e
      | Inr sev \<Rightarrow> count_severities rest (counter_incr severity_count sev))"

text \<open>The outer loop, \<^verbatim>\<open>for file_data in data\<close>.\<close>

fun analyze_files :: "json list \<Rightarrow> statistics \<Rightarrow> py_error + statistics" where
  "analyze_files [] st = Inr st"
| "analyze_files (file_data # rest) st =
     (case py_get file_data ''diagnostics'' (JArr []) of
        Inl e \<Rightarrow> Inl e
      | Inr diagnostics \<Rightarrow>
          (case py_len diagnostics of
             Inl e \<Rightarrow> Inl e
           | Inr n \<Rightarrow>
               (case py_iter diagnostics of
                  Inl e \<Rightarrow> Inl e
                | Inr ds \<Rightarrow>
                    (case count_severities ds (by_severity st) of
                       Inl e \<Rightarrow> Inl e
                     | Inr sc \<Rightarrow>
                         analyze_files rest
                           \<lparr>total_files = total_files st + 1,
                            total_diagnostics = total_diagnostics st + n,
                            by_severity = sc\<rparr>))))"

definition analyze_statistics :: "json \<Rightarrow> py_error + statistics" where
  "analyze_statistics data =
     (case py_iter data of
        Inl e \<Rightarrow> Inl e
      | Inr fs \<Rightarrow>
          analyze_files fs \<lparr>total_files = 0, total_diagnostics = 0, by_severity = Map.empty\<rparr>)"

section \<open>The environment of one run\<close>

text \<open>
  What the code obtains from outside itself is a parameter of the model.

  \<^item> \<open>file_obs\<close> is what one attempt of the retry loop finds: the file is absent
    (\<^verbatim>\<open>exists()\<close> is false); its size is zero; \<^verbatim>\<open>stat\<close>, \<^verbatim>\<open>open\<close> or \<^verbatim>\<open>read\<close> raises
    \<^verbatim>\<open>OSError\<close> (\<^verbatim>\<open>PermissionError\<close> is one); the bytes read are not valid UTF-8, so that
    \<^verbatim>\<open>read\<close> on a file opened with \<^verbatim>\<open>encoding="utf-8"\<close> raises \<^verbatim>\<open>UnicodeDecodeError\<close>;
    or the file was read, and \<open>Stripped s\<close> carries \<^verbatim>\<open>f.read().strip()\<close>.
  \<^item> \<open>json_loads\<close> is \<^verbatim>\<open>json.loads\<close>: it returns a value (\<open>Loaded\<close>), or raises
    \<^verbatim>\<open>JSONDecodeError\<close>, or raises another exception (\<open>LoadsRaised\<close>):
    \<^verbatim>\<open>RecursionError\<close> on text nested deeper than the interpreter's recursion limit, plain
    \<^verbatim>\<open>ValueError\<close> on an integer literal longer than the interpreter's digit limit.
  \<^item> \<open>located_init\<close>, \<open>exists_after_settle\<close> and \<open>located_again\<close> are the results of
    \<^verbatim>\<open>_locate_diagnostics_file()\<close> in the constructor, of \<^verbatim>\<open>exists()\<close> after the first
    wait, and of the second \<^verbatim>\<open>_locate_diagnostics_file()\<close>.
  \<^item> \<open>path_name\<close> is \<^verbatim>\<open>Path(p).name\<close>; \<open>relative_to_root\<close> is
    \<^verbatim>\<open>Path(p).resolve().relative_to(root).as_posix()\<close>, with \<open>None\<close> for \<^verbatim>\<open>ValueError\<close>.
  \<^item> \<open>py_repr\<close> is \<^verbatim>\<open>str\<close> on floats, lists and dicts.
  \<^item> \<open>stdout_accepts\<close> says whether standard output can encode what is printed;
    \<^verbatim>\<open>print\<close> raises \<^verbatim>\<open>UnicodeEncodeError\<close> otherwise.

  Debug output (\<^verbatim>\<open>debug_log\<close>) goes to standard error and changes nothing else; it is left
  out. So are the failures that do not depend on the input: exhausted memory, an interrupt
  from the keyboard.
\<close>

datatype file_obs = Absent | ZeroSize | OsError | Undecodable | Stripped string

datatype loads_result = Loaded json | JSONDecodeError | LoadsRaised py_error

datatype printed = PrintJson json | PrintLine string

record env =
  located_init :: bool
  exists_after_settle :: bool
  located_again :: bool
  probe :: "nat \<Rightarrow> file_obs"
  json_loads :: "string \<Rightarrow> loads_result"
  path_name :: "string \<Rightarrow> string"
  relative_to_root :: "string \<Rightarrow> string option"
  py_repr :: "json \<Rightarrow> string"
  stdout_accepts :: "printed \<Rightarrow> bool"

text \<open>The effects of the reader: time slept (in the unit of \<^verbatim>\<open>time.sleep(1)\<close>), attempts
  made, and the attempt numbers of the failure lines written to standard error.\<close>

record run_state =
  slept :: nat
  attempts :: nat
  failure_log :: "nat list"

definition initial_state :: run_state where
  "initial_state = \<lparr>slept = 0, attempts = 0, failure_log = []\<rparr>"

definition sleep :: "nat \<Rightarrow> run_state \<Rightarrow> run_state" where
  "sleep n st = st\<lparr>slept := slept st + n\<rparr>"

section \<open>The Retrying Reader: \<^verbatim>\<open>load_diagnostics\<close>\<close>

text \<open>
  \<open>load_attempts env k attempt st\<close> runs the remaining \<open>k\<close> iterations of
  \<^verbatim>\<open>for attempt in range(5)\<close>, the next one having index \<open>attempt\<close>. The three
  \<^verbatim>\<open>time.sleep(1); continue\<close> branches in the \<^verbatim>\<open>try\<close> body sleep on every attempt; the
  \<^verbatim>\<open>except (json.JSONDecodeError, OSError, PermissionError)\<close> handler sleeps only when
  \<^verbatim>\<open>attempt < 4\<close> and otherwise writes the failure line. \<^verbatim>\<open>UnicodeDecodeError\<close> is not
  among the handled classes (it derives from \<^verbatim>\<open>ValueError\<close>, as \<^verbatim>\<open>JSONDecodeError\<close> does,
  but from neither handled class) and leaves the function, and so does any exception of
  \<^verbatim>\<open>json.loads\<close> other than \<^verbatim>\<open>JSONDecodeError\<close>. The loop falling through returns
  \<^verbatim>\<open>[]\<close>.
\<close>

definition handle_failure :: "nat \<Rightarrow> run_state \<Rightarrow> run_state" where
  "handle_failure attempt st =
     (if attempt < 4 then sleep 1 st
      else st\<lparr>failure_log := failure_log st @ [attempt + 1]\<rparr>)"

fun load_attempts :: "env \<Rightarrow> nat \<Rightarrow> nat \<Rightarrow> run_state \<Rightarrow> (py_error + json) \<times> run_state" where
  "load_attempts env 0 attempt st = (Inr (JArr []), st)"
| "load_attempts env (Suc k) attempt st =
     (let st1 = st\<lparr>attempts := attempts st + 1\<rparr> in
      case probe env attempt of
        Absent \<Rightarrow> load_attempts env k (attempt + 1) (sleep 1 st1)
      | ZeroSize \<Rightarrow> load_attempts env k (attempt + 1) (sleep 1 st1)
      | OsError \<Rightarrow> load_attempts env k (attempt + 1) (handle_failure attempt st1)
      | Undecodable \<Rightarrow> (Inl UnicodeDecodeError, st1)
      | Stripped content \<Rightarrow>
          if content = [] then load_attempts env k (attempt + 1) (sleep 1 st1)
          else (case json_loads env content of
                  Loaded v \<Rightarrow> (Inr v, st1)
                | JSONDecodeError \<Rightarrow>
                    load_attempts env k (attempt + 1) (handle_failure attempt st1)
                | LoadsRaised e \<Rightarrow> (Inl e, st1)))"

text \<open>\<open>located\<close> is \<^verbatim>\<open>bool(self.diagnostics_file)\<close>.\<close>

definition load_diagnostics :: "env \<Rightarrow> bool \<Rightarrow> run_state \<Rightarrow> (py_error + json) \<times> run_state" where
  "load_diagnostics env located st =
     (if \<not> located then (Inr (JArr []), st) else load_attempts env 5 0 st)"

section \<open>The Report Renderer: \<^verbatim>\<open>generate_reason_markdown\<close>\<close>

subsection \<open>Formatting\<close>

definition digit_char :: "nat \<Rightarrow> char" where
  "digit_char d = ''0123456789'' ! d"

fun str_nat :: "nat \<Rightarrow> string" where
  "str_nat n =
     (if n < 10 then [digit_char n] else str_nat (n div 10) @ [digit_char (n mod 10)])"

definition str_int :: "int \<Rightarrow> string" where
  "str_int i = (if i < 0 then ''-'' @ str_nat (nat (- i)) else str_nat (nat i))"

text \<open>What an f-string puts in for a value.\<close>

fun py_str :: "env \<Rightarrow> json \<Rightarrow> string" where
  "py_str env (JStr s) = s"
| "py_str env (JInt i) = str_int i"
| "py_str env (JBool b) = (if b then ''True'' else ''False'')"
| "py_str env JNull = ''None''"
| "py_str env (JFloat f) = py_repr env (JFloat f)"
| "py_str env (JArr xs) = py_repr env (JArr xs)"
| "py_str env (JObj kv) = py_repr env (JObj kv)"

text \<open>\<^verbatim>\<open>sep.join(xs)\<close>.\<close>

fun py_join :: "string \<Rightarrow> string list \<Rightarrow> string" where
  "py_join sep [] = []"
| "py_join sep [x] = x"
| "py_join sep (x # y # ys) = x @ sep @ py_join sep (y # ys)"

definition newline :: string where
  "newline = [CHR 0x0A]"

text \<open>The fixed texts of the report, as UTF-8. \<open>ge\<close> is the measure word U+4E2A that
  follows each count of the per-file summary; \<open>heading_prefix\<close> is \<^verbatim>\<open>###\<close>, U+1F4C4 and
  a blank; \<open>summary_title\<close> is \<^verbatim>\<open>###\<close> and the four characters U+8BCA U+65AD U+6458
  U+8981.\<close>

definition ge :: string where
  "ge = [CHR 0xE4, CHR 0xB8, CHR 0xAA]"

definition heading_prefix :: string where
  "heading_prefix = ''### '' @ [CHR 0xF0, CHR 0x9F, CHR 0x93, CHR 0x84] @ '' ''"

definition pos_prefix :: string where
  "pos_prefix = ''**'' @ [CHR 0xE7, CHR 0xAC, CHR 0xAC]"

definition pos_mid :: string where
  "pos_mid = [CHR 0xE8, CHR 0xA1, CHR 0x8C] @ '':''"

definition msg_prefix :: string where
  "msg_prefix = ''- **'' @ [CHR 0xE6, CHR 0xB6, CHR 0x88, CHR 0xE6, CHR 0x81, CHR 0xAF] @ ''**: ''"

definition msg_none :: string where
  "msg_none = [CHR 0xE6, CHR 0x97, CHR 0xA0]"

definition src_prefix :: string where
  "src_prefix = ''- **'' @ [CHR 0xE6, CHR 0x9D, CHR 0xA5, CHR 0xE6, CHR 0xBA, CHR 0x90] @ ''**: ''"

definition code_prefix :: string where
  "code_prefix = ''- **'' @ [CHR 0xE9, CHR 0x94, CHR 0x99, CHR 0xE8, CHR 0xAF, CHR 0xAF,
     CHR 0xE4, CHR 0xBB, CHR 0xA3, CHR 0xE7, CHR 0xA0, CHR 0x81] @ ''**: ''"

definition path_prefix :: string where
  "path_prefix = ''- **'' @ [CHR 0xE6, CHR 0x96, CHR 0x87, CHR 0xE4, CHR 0xBB, CHR 0xB6,
     CHR 0xE8, CHR 0xB7, CHR 0xAF, CHR 0xE5, CHR 0xBE, CHR 0x84] @ ''**: '' @ [CHR 0x60]"

definition summary_title :: string where
  "summary_title = ''### '' @ [CHR 0xE8, CHR 0xAF, CHR 0x8A, CHR 0xE6, CHR 0x96, CHR 0xAD,
     CHR 0xE6, CHR 0x91, CHR 0x98, CHR 0xE8, CHR 0xA6, CHR 0x81]"

subsection \<open>The per-file summary\<close>

text \<open>\<^verbatim>\<open>sum(1 for d in diagnostics if d.get("severity") == n)\<close>.\<close>

fun count_severity :: "json list \<Rightarrow> int \<Rightarrow> py_error + nat" where
  "count_severity [] n = Inr 0"
| "count_severity (d # ds) n =
     (case py_get d ''severity'' JNull of
        Inl e \<Rightarrow> Inl e
      | Inr v \<Rightarrow>
          (case count_severity ds n of
             Inl e \<Rightarrow> Inl e
           | Inr c \<Rightarrow> Inr (if py_eq_int v n then c + 1 else c)))"

definition summary_parts :: "nat \<Rightarrow> nat \<Rightarrow> nat \<Rightarrow> nat \<Rightarrow> string list" where
  "summary_parts file_errors file_warnings file_infos file_hints =
     (if file_errors \<noteq> 0 then [str_nat file_errors @ ge @ ''error''] else []) @
     (if file_warnings \<noteq> 0 then [str_nat file_warnings @ ge @ ''warning''] else []) @
     (if file_infos \<noteq> 0 then [str_nat file_infos @ ge @ ''information''] else []) @
     (if file_hints \<noteq> 0 then [str_nat file_hints @ ge @ ''hint''] else [])"

definition summary_text :: "json list \<Rightarrow> py_error + string" where
  "summary_text diagnostics =
     bind_err (count_severity diagnostics 0) (\<lambda>file_errors.
     bind_err (count_severity diagnostics 1) (\<lambda>file_warnings.
     bind_err (count_severity diagnostics 2) (\<lambda>file_infos.
     bind_err (count_severity diagnostics 3) (\<lambda>file_hints.
       Inr (py_join '', '' (summary_parts file_errors file_warnings file_infos file_hints))))))"

definition file_heading :: "string \<Rightarrow> string \<Rightarrow> string" where
  "file_heading file_name summary = heading_prefix @ file_name @ '' ('' @ summary @ '')''"

subsection \<open>The lines of one entry\<close>

definition relativize :: "env \<Rightarrow> string \<Rightarrow> string" where
  "relativize env file_path =
     (case relative_to_root env file_path of None \<Rightarrow> file_path | Some r \<Rightarrow> r)"

definition icon_of :: "string \<Rightarrow> string" where
  "icon_of severity_name =
     (case map_of SEVERITY_ICONS severity_name of None \<Rightarrow> icon_default | Some i \<Rightarrow> i)"

definition render_diagnostic :: "env \<Rightarrow> string \<Rightarrow> json \<Rightarrow> py_error + string list" where
  "render_diagnostic env file_path diagnostic =
     bind_err (severity_name_of diagnostic) (\<lambda>severity_name.
     bind_err (py_get diagnostic ''start'' (JObj [])) (\<lambda>start.
     bind_err (py_get diagnostic ''end'' (JObj [])) (\<lambda>end'.
     bind_err (py_get start ''line'' (JInt 0)) (\<lambda>line.
     bind_err (py_get start ''character'' (JInt 0)) (\<lambda>start_char.
     bind_err (py_get end' ''character'' (JInt 0)) (\<lambda>end_char.
     bind_err (py_get diagnostic ''message'' (JStr msg_none)) (\<lambda>message.
     bind_err (py_get diagnostic ''source'' JNull) (\<lambda>source.
     bind_err (py_get diagnostic ''code'' JNull) (\<lambda>code.
       Inr ([pos_prefix @ py_str env line @ pos_mid @ py_str env start_char @ ''-'' @
               py_str env end_char @ ''** - '' @ icon_of severity_name @ '' '' @ severity_name,
             msg_prefix @ py_str env message]
            @ (if py_truthy source then [src_prefix @ py_str env source] else [])
            @ (if py_truthy code then [code_prefix @ py_str env code] else [])
            @ [path_prefix @ relativize env file_path @ [CHR 0x60], []]))))))))))"

fun render_diagnostics :: "env \<Rightarrow> string \<Rightarrow> json list \<Rightarrow> py_error + string list" where
  "render_diagnostics env file_path [] = Inr []"
| "render_diagnostics env file_path (diagnostic # rest) =
     (case render_diagnostic env file_path diagnostic of
        Inl e \<Rightarrow> Inl e
      | Inr ls \<Rightarrow>
          (case render_diagnostics env file_path rest of
             Inl e \<Rightarrow> Inl e
           | Inr others \<Rightarrow> Inr (ls @ others)))"

subsection \<open>The loop over the files and the report\<close>

text \<open>\<^verbatim>\<open>Path(v)\<close> accepts a string only.\<close>

fun as_path :: "json \<Rightarrow> py_error + string" where
  "as_path (JStr s) = Inr s"
| "as_path JNull = Inl TypeError"
| "as_path (JBool b) = Inl TypeError"
| "as_path (JInt i) = Inl TypeError"
| "as_path (JFloat f) = Inl TypeError"
| "as_path (JArr xs) = Inl TypeError"
| "as_path (JObj kv) = Inl TypeError"

text \<open>The section of one file whose \<^verbatim>\<open>diagnostics\<close> value is truthy.\<close>

definition render_file :: "env \<Rightarrow> json \<Rightarrow> json \<Rightarrow> py_error + string list" where
  "render_file env file_data diagnostics =
     bind_err (py_getitem file_data ''file'') (\<lambda>fp.
     bind_err (as_path fp) (\<lambda>file_path.
     bind_err (py_iter diagnostics) (\<lambda>ds.
     bind_err (summary_text ds) (\<lambda>summary.
     bind_err (render_diagnostics env file_path ds) (\<lambda>ls.
       Inr ([file_heading (path_name env file_path) summary, []] @ ls))))))"

fun render_files :: "env \<Rightarrow> json list \<Rightarrow> py_error + string list" where
  "render_files env [] = Inr []"
| "render_files env (file_data # rest) =
     (case py_get file_data ''diagnostics'' (JArr []) of
        Inl e \<Rightarrow> Inl e
      | Inr diagnostics \<Rightarrow>
          if \<not> py_truthy diagnostics then render_files env rest
          else (case render_file env file_data diagnostics of
                  Inl e \<Rightarrow> Inl e
                | Inr ls \<Rightarrow>
                    (case render_files env rest of
                       Inl e \<Rightarrow> Inl e
                     | Inr others \<Rightarrow> Inr (ls @ others))))"

definition header :: "nat \<Rightarrow> nat \<Rightarrow> string list" where
  "header errors warnings =
     [summary_title,
      [],
      ''- '' @ icon_error @ '' Error: '' @ str_nat errors,
      ''- '' @ icon_warning @ '' Warning: '' @ str_nat warnings,
      []]"

text \<open>Lines 204 to 290 of \<^verbatim>\<open>generate_reason_markdown\<close>: from the loaded data to the
  report, \<open>None\<close> when there is nothing to report.\<close>

definition reason_markdown :: "env \<Rightarrow> json \<Rightarrow> py_error + string option" where
  "reason_markdown env data =
     (if \<not> py_truthy data then Inr None
      else
        bind_err (analyze_statistics data) (\<lambda>stats.
          let errors = counter_get (by_severity stats) ''Error'';
              warnings = counter_get (by_severity stats) ''Warning''
          in if errors = 0 \<and> warnings = 0 then Inr None
             else
               bind_err (py_iter data) (\<lambda>fs.
               bind_err (render_files env fs) (\<lambda>detail_lines.
                 Inr (Some (py_join newline (header errors warnings @ detail_lines)))))))"

text \<open>The whole method: the settle wait of 3, the further wait of 2 and the second
  location when no existing file is known, the reader, the report.\<close>

definition generate_reason_markdown ::
  "env \<Rightarrow> run_state \<Rightarrow> (py_error + string option) \<times> run_state" where
  "generate_reason_markdown env st =
     (let st1 = sleep 3 st;
          relocate = (\<not> located_init env \<or> \<not> exists_after_settle env);
          st2 = (if relocate then sleep 2 st1 else st1);
          located = (if relocate then located_again env else True);
          loaded = load_diagnostics env located st2
      in (bind_err (fst loaded) (reason_markdown env), snd loaded))"

section \<open>The Dispatch Policy: \<^verbatim>\<open>check_and_report\<close> and \<^verbatim>\<open>main\<close>\<close>

text \<open>\<^verbatim>\<open>print(x)\<close>: what is written, or the encoding error.\<close>

definition py_print :: "env \<Rightarrow> printed \<Rightarrow> py_error + printed list" where
  "py_print env p = (if stdout_accepts env p then Inr [p] else Inl UnicodeEncodeError)"

text \<open>\<^verbatim>\<open>not reason_md\<close> holds for \<^verbatim>\<open>None\<close> and for the empty string.\<close>

definition block_decision :: "string \<Rightarrow> printed" where
  "block_decision reason_md =
     PrintJson (JObj [(''decision'', JStr ''block''), (''reason'', JStr reason_md)])"

definition check_and_report :: "env \<Rightarrow> py_error + (printed list \<times> bool)" where
  "check_and_report env =
     bind_err (fst (generate_reason_markdown env initial_state)) (\<lambda>reason_md.
       case reason_md of
         None \<Rightarrow> Inr ([], False)
       | Some md \<Rightarrow>
           if md = [] then Inr ([], False)
           else bind_err (py_print env (block_decision md)) (\<lambda>out. Inr (out, True)))"

text \<open>The banner placed before the report on the prompt-submission path, as UTF-8, one
  definition for each line of the source's string literal.\<close>

definition emphasis_title :: string where
  "emphasis_title = [CHR 0xE2, CHR 0x9A, CHR 0xA0, CHR 0xEF, CHR 0xB8, CHR 0x8F] @ '' '' @
     [CHR 0xE4, CHR 0xBC, CHR 0x98, CHR 0xE5, CHR 0x85, CHR 0x88, CHR 0xE7, CHR 0xBA, CHR 0xA7,
      CHR 0xE6, CHR 0x8F, CHR 0x90, CHR 0xE7, CHR 0xA4, CHR 0xBA, CHR 0x0A, CHR 0x0A]"

definition emphasis_pause :: string where
  "emphasis_pause =
     [CHR 0xE8, CHR 0xAF, CHR 0xB7, CHR 0xE6, CHR 0x9A, CHR 0x82, CHR 0xE5, CHR 0x81, CHR 0x9C,
      CHR 0xE5, CHR 0xBD, CHR 0x93, CHR 0xE5, CHR 0x89, CHR 0x8D, CHR 0xE4, CHR 0xBB, CHR 0xBB,
      CHR 0xE5, CHR 0x8A, CHR 0xA1, CHR 0xE4, CHR 0xB8, CHR 0x8E, CHR 0xE5, CHR 0x90, CHR 0x8E,
      CHR 0xE7, CHR 0xBB, CHR 0xAD, CHR 0xE8, CHR 0xBE, CHR 0x93, CHR 0xE5, CHR 0x87, CHR 0xBA,
      CHR 0xEF, CHR 0xBC, CHR 0x8C, CHR 0xE5, CHR 0x85, CHR 0x88, CHR 0xE4, CHR 0xBF, CHR 0xAE,
      CHR 0xE5, CHR 0xA4, CHR 0x8D, CHR 0xE4, CHR 0xBB, CHR 0xA5, CHR 0xE4, CHR 0xB8, CHR 0x8B,
      CHR 0xE4, CHR 0xBB, CHR 0xA3, CHR 0xE7, CHR 0xA0, CHR 0x81, CHR 0xE9, CHR 0x94, CHR 0x99,
      CHR 0xE8, CHR 0xAF, CHR 0xAF] @ ''/'' @
     [CHR 0xE8, CHR 0xAD, CHR 0xA6, CHR 0xE5, CHR 0x91, CHR 0x8A, CHR 0xEF, CHR 0xBC, CHR 0x8C,
      CHR 0xE5, CHR 0x86, CHR 0x8D, CHR 0xE7, CHR 0xBB, CHR 0xA7, CHR 0xE7, CHR 0xBB, CHR 0xAD,
      CHR 0xE5, CHR 0x8E, CHR 0x9F, CHR 0xE5, CHR 0xA7, CHR 0x8B, CHR 0xE4, CHR 0xBB, CHR 0xBB,
      CHR 0xE5, CHR 0x8A, CHR 0xA1, CHR 0xE3, CHR 0x80, CHR 0x82, CHR 0x0A]"

definition emphasis_order :: string where
  "emphasis_order =
     [CHR 0xE5, CHR 0xBB, CHR 0xBA, CHR 0xE8, CHR 0xAE, CHR 0xAE, CHR 0xE6, CHR 0x89, CHR 0xA7,
      CHR 0xE8, CHR 0xA1, CHR 0x8C, CHR 0xE9, CHR 0xA1, CHR 0xBA, CHR 0xE5, CHR 0xBA, CHR 0x8F,
      CHR 0xEF, CHR 0xBC, CHR 0x9A, CHR 0x0A]"

definition emphasis_step1 :: string where
  "emphasis_step1 = ''1) '' @
     [CHR 0xE9, CHR 0x80, CHR 0x90, CHR 0xE4, CHR 0xB8, CHR 0xAA, CHR 0xE4, CHR 0xBF, CHR 0xAE,
      CHR 0xE5, CHR 0xA4, CHR 0x8D, CHR 0xE4, CHR 0xB8, CHR 0x8B, CHR 0xE5, CHR 0x88, CHR 0x97] @
     '' Error'' @
     [CHR 0xEF, CHR 0xBC, CHR 0x88, CHR 0xE9, CHR 0x98, CHR 0xBB, CHR 0xE6, CHR 0x96, CHR 0xAD,
      CHR 0xE9, CHR 0xA1, CHR 0xB9, CHR 0xEF, CHR 0xBC, CHR 0x89, CHR 0x0A]"

definition emphasis_step2 :: string where
  "emphasis_step2 = ''2) '' @
     [CHR 0xE5, CHR 0xA4, CHR 0x84, CHR 0xE7, CHR 0x90, CHR 0x86] @ '' Warning'' @
     [CHR 0xEF, CHR 0xBC, CHR 0x88, CHR 0xE9, CHR 0x9D, CHR 0x9E, CHR 0xE9, CHR 0x98, CHR 0xBB,
      CHR 0xE6, CHR 0x96, CHR 0xAD, CHR 0xE4, CHR 0xBD, CHR 0x86, CHR 0xE5, CHR 0xBB, CHR 0xBA,
      CHR 0xE8, CHR 0xAE, CHR 0xAE, CHR 0xE4, CHR 0xBF, CHR 0xAE, CHR 0xE5, CHR 0xA4, CHR 0x8D,
      CHR 0xEF, CHR 0xBC, CHR 0x89, CHR 0x0A]"

definition emphasis_step3 :: string where
  "emphasis_step3 = ''3) '' @
     [CHR 0xE9, CHR 0x87, CHR 0x8D, CHR 0xE6, CHR 0x96, CHR 0xB0, CHR 0xE6, CHR 0x9E, CHR 0x84,
      CHR 0xE5, CHR 0xBB, CHR 0xBA] @ ''/'' @
     [CHR 0xE5, CHR 0x88, CHR 0x86, CHR 0xE6, CHR 0x9E, CHR 0x90, CHR 0xEF, CHR 0xBC, CHR 0x8C,
      CHR 0xE7, CHR 0xA1, CHR 0xAE, CHR 0xE8, CHR 0xAE, CHR 0xA4, CHR 0xE6, CHR 0x97, CHR 0xA0] @
     '' Error '' @
     [CHR 0xE5, CHR 0x90, CHR 0x8E, CHR 0xE5, CHR 0x86, CHR 0x8D, CHR 0xE5, CHR 0x9B, CHR 0x9E,
      CHR 0xE7, CHR 0xAD, CHR 0x94, CHR 0xE6, CHR 0x9C, CHR 0x80, CHR 0xE5, CHR 0x88, CHR 0x9D,
      CHR 0xE7, CHR 0x9A, CHR 0x84, CHR 0xE9, CHR 0x97, CHR 0xAE, CHR 0xE9, CHR 0xA2, CHR 0x98,
      CHR 0xE3, CHR 0x80, CHR 0x82, CHR 0x0A, CHR 0x0A]"

definition emphasis_rule :: string where
  "emphasis_rule = ''---'' @ [CHR 0x0A, CHR 0x0A]"

definition emphasis :: string where
  "emphasis = emphasis_title @ emphasis_pause @ emphasis_order @ emphasis_step1 @
     emphasis_step2 @ emphasis_step3 @ emphasis_rule"

definition inject_context :: "string \<Rightarrow> printed" where
  "inject_context reason_md =
     PrintJson (JObj [(''hookSpecificOutput'',
       JObj [(''hookEventName'', JStr ''UserPromptSubmit''),
             (''additionalContext'', JStr (emphasis @ reason_md))])])"

text \<open>The line echoed for any other event: the event name, then U+FF1A and four
  characters; and the ASCII line printed when the first cannot be encoded.\<close>

definition echo_suffix :: string where
  "echo_suffix = [CHR 0xEF, CHR 0xBC, CHR 0x9A, CHR 0xE9, CHR 0x92, CHR 0xA9, CHR 0xE5, CHR 0xAD,
     CHR 0x90, CHR 0xE8, CHR 0xA7, CHR 0xA6, CHR 0xE5, CHR 0x8F, CHR 0x91]"

definition echo_fallback :: string where
  "echo_fallback = '': Hook Triggered (Encoding Fallback)''"

definition echo_event :: "env \<Rightarrow> string \<Rightarrow> py_error + printed list" where
  "echo_event env hook_event_name =
     (case py_print env (PrintLine (hook_event_name @ echo_suffix)) of
        Inr out \<Rightarrow> Inr out
      | Inl e \<Rightarrow> py_print env (PrintLine (hook_event_name @ echo_fallback)))"

text \<open>The dispatch of \<^verbatim>\<open>main\<close> on the event name (which \<^verbatim>\<open>get_hook_input\<close> supplies):
  what was written to standard output, and the exit status. \<^verbatim>\<open>sys.exit(0)\<close> ends every
  path that raised nothing; \<^verbatim>\<open>except Exception\<close> turns any exception into a report on
  standard error and \<^verbatim>\<open>sys.exit(1)\<close>.\<close>

definition dispatch :: "env \<Rightarrow> string \<Rightarrow> py_error + printed list" where
  "dispatch env hook_event_name =
     (if hook_event_name = ''PostToolUse'' then
        bind_err (check_and_report env) (\<lambda>r. Inr (fst r))
      else if hook_event_name = ''UserPromptSubmit'' then
        bind_err (fst (generate_reason_markdown env initial_state)) (\<lambda>reason_md.
          case reason_md of
            None \<Rightarrow> Inr []
          | Some md \<Rightarrow> if md = [] then Inr [] else py_print env (inject_context md))
      else echo_event env hook_event_name)"

definition main :: "env \<Rightarrow> string \<Rightarrow> printed list \<times> nat" where
  "main env hook_event_name =
     (case dispatch env hook_event_name of
        Inr out \<Rightarrow> (out, 0)
      | Inl e \<Rightarrow> ([], 1))"

section \<open>Notions used to state the properties\<close>

subsection \<open>Snapshots\<close>

text \<open>
  The shape of the input file: an array of file objects, each with a string \<^verbatim>\<open>file\<close> and
  a \<^verbatim>\<open>diagnostics\<close> array (which may be missing) of entry objects. In an entry every field
  may be missing; \<^verbatim>\<open>severity\<close>, when present, is any value but an array or an object, and
  \<^verbatim>\<open>start\<close> and \<^verbatim>\<open>end\<close>, when present, are objects.
\<close>

fun is_object :: "json \<Rightarrow> bool" where
  "is_object (JObj kv) = True"
| "is_object JNull = False"
| "is_object (JBool b) = False"
| "is_object (JInt i) = False"
| "is_object (JFloat f) = False"
| "is_object (JStr s) = False"
| "is_object (JArr xs) = False"

definition is_entry :: "json \<Rightarrow> bool" where
  "is_entry d =
     (case d of
        JObj kv \<Rightarrow>
          (case map_of kv ''severity'' of None \<Rightarrow> True | Some v \<Rightarrow> hashable v) \<and>
          (case map_of kv ''start'' of None \<Rightarrow> True | Some v \<Rightarrow> is_object v) \<and>
          (case map_of kv ''end'' of None \<Rightarrow> True | Some v \<Rightarrow> is_object v)
      | _ \<Rightarrow> False)"

definition is_file_diagnostics :: "json \<Rightarrow> bool" where
  "is_file_diagnostics f =
     (case f of
        JObj kv \<Rightarrow>
          (case map_of kv ''file'' of Some (JStr p) \<Rightarrow> True | _ \<Rightarrow> False) \<and>
          (case map_of kv ''diagnostics'' of
             None \<Rightarrow> True
           | Some (JArr ds) \<Rightarrow> list_all is_entry ds
           | _ \<Rightarrow> False)
      | _ \<Rightarrow> False)"

definition is_snapshot :: "json \<Rightarrow> bool" where
  "is_snapshot data = (case data of JArr fs \<Rightarrow> list_all is_file_diagnostics fs | _ \<Rightarrow> False)"

text \<open>The entries of one file object (none when the field is missing), and the severity
  labels of all entries of a list of files, in snapshot order.\<close>

definition entries_of :: "json \<Rightarrow> json list" where
  "entries_of f =
     (case py_get f ''diagnostics'' (JArr []) of
        Inr (JArr ds) \<Rightarrow> ds
      | _ \<Rightarrow> [])"

definition label_of :: "json \<Rightarrow> string" where
  "label_of d = (case severity_name_of d of Inr l \<Rightarrow> l | Inl e \<Rightarrow> ''Unknown'')"

definition snapshot_labels :: "json list \<Rightarrow> string list" where
  "snapshot_labels fs = concat (map (\<lambda>f. map label_of (entries_of f)) fs)"

subsection \<open>Explicit severities\<close>

text \<open>The integer an entry's \<^verbatim>\<open>severity\<close> field holds, when the entry has the field and
  its value equals an integer.\<close>

definition explicit_severity :: "json \<Rightarrow> int option" where
  "explicit_severity d =
     (case d of
        JObj kv \<Rightarrow> (case map_of kv ''severity'' of None \<Rightarrow> None | Some v \<Rightarrow> int_key v)
      | _ \<Rightarrow> None)"

definition explicit_count :: "json list \<Rightarrow> int \<Rightarrow> nat" where
  "explicit_count ds n = length (filter (\<lambda>d. explicit_severity d = Some n) ds)"

definition recognized :: "json \<Rightarrow> bool" where
  "recognized d = (explicit_severity d \<in> {Some 0, Some 1, Some 2, Some 3})"

subsection \<open>The first lines of a report\<close>

definition header_text :: "nat \<Rightarrow> nat \<Rightarrow> string" where
  "header_text errors warnings =
     summary_title @ newline @ newline @
     ''- '' @ icon_error @ '' Error: '' @ str_nat errors @ newline @
     ''- '' @ icon_warning @ '' Warning: '' @ str_nat warnings @ newline"

text \<open>Reading a count back from its decimal form.\<close>

definition digit_value :: "char \<Rightarrow> nat" where
  "digit_value c = length (takeWhile (\<lambda>d. d \<noteq> c) ''0123456789'')"

definition read_nat :: "string \<Rightarrow> nat" where
  "read_nat s = foldl (\<lambda>a c. 10 * a + digit_value c) 0 s"

subsection \<open>Unusable observations\<close>


text \<open>An attempt that ends in the exception handler of the reader: an OS error, or text
  that is not blank and that \<^verbatim>\<open>json.loads\<close> rejects with \<^verbatim>\<open>JSONDecodeError\<close>.\<close>

definition handled_failure :: "env \<Rightarrow> file_obs \<Rightarrow> bool" where
  "handled_failure env obs =
     (case obs of
        OsError \<Rightarrow> True
      | Stripped content \<Rightarrow> content \<noteq> [] \<and> json_loads env content = JSONDecodeError
      | Absent \<Rightarrow> False
      | ZeroSize \<Rightarrow> False
      | Undecodable \<Rightarrow> False)"

section \<open>Sample environments\<close>

text \<open>
  A POSIX system with the project at \<^verbatim>\<open>/proj\<close>, a console that encodes everything, and a
  diagnostics file whose stripped text is the same on every attempt. \<open>sample_loads\<close> is
  \<^verbatim>\<open>json.loads\<close> on the texts used below.
\<close>

definition base_name :: "string \<Rightarrow> string" where
  "base_name p = rev (takeWhile (\<lambda>c. c \<noteq> CHR ''/'') (rev p))"

definition under_proj :: "string \<Rightarrow> string option" where
  "under_proj p = (if take 6 p = ''/proj/'' then Some (drop 6 p) else None)"

definition text_scenario_A :: string where
  \<open>text_scenario_A = ''[{"file": "/proj/a.py", "diagnostics": [{"severity": 0, "message": "bad syntax", "start": {"line": 3, "character": 1}, "end": {"line": 3, "character": 5}}]}]''\<close>

definition file_A :: json where
  "file_A =
     JObj [(''file'', JStr ''/proj/a.py''),
           (''diagnostics'',
            JArr [JObj [(''severity'', JInt 0),
                        (''message'', JStr ''bad syntax''),
                        (''start'', JObj [(''line'', JInt 3), (''character'', JInt 1)]),
                        (''end'', JObj [(''line'', JInt 3), (''character'', JInt 5)])]])]"

definition snapshot_A :: json where
  "snapshot_A = JArr [file_A]"

text \<open>The report for Scenario A: the header with one error and no warning, the heading of
  \<^verbatim>\<open>a.py\<close> with its summary, and the one entry at position \<^verbatim>\<open>3:1-5\<close>.\<close>

definition report_A :: string where
  "report_A =
     header_text 1 0 @ newline @
     heading_prefix @ ''a.py (1'' @ ge @ ''error)'' @ newline @ newline @
     pos_prefix @ ''3'' @ pos_mid @ ''1-5** - '' @ icon_error @ '' Error'' @ newline @
     msg_prefix @ ''bad syntax'' @ newline @
     path_prefix @ ''a.py'' @ [CHR 0x60] @ newline"

definition text_scenario_B :: string where
  \<open>text_scenario_B = ''[{"file": "/proj/b.py", "diagnostics": [{"severity": 2, "message": "note"}]}]''\<close>

definition file_B :: json where
  "file_B =
     JObj [(''file'', JStr ''/proj/b.py''),
           (''diagnostics'', JArr [JObj [(''severity'', JInt 2), (''message'', JStr ''note'')]])]"

definition snapshot_B :: json where
  "snapshot_B = JArr [file_B]"

definition text_no_severity :: string where
  \<open>text_no_severity = ''[{"file": "/proj/c.py", "diagnostics": [{"message": "m"}]}]''\<close>

definition file_no_severity :: "(string \<times> json) list" where
  "file_no_severity =
     [(''file'', JStr ''/proj/c.py''), (''diagnostics'', JArr [JObj [(''message'', JStr ''m'')]])]"

definition snapshot_no_severity :: json where
  "snapshot_no_severity = JArr [JObj file_no_severity]"

definition text_zero_severity :: string where
  \<open>text_zero_severity = ''[{"file": "/proj/c.py", "diagnostics": [{"severity": 0, "message": "m"}]}]''\<close>

definition file_zero_severity :: "(string \<times> json) list" where
  "file_zero_severity =
     [(''file'', JStr ''/proj/c.py''),
      (''diagnostics'', JArr [JObj [(''severity'', JInt 0), (''message'', JStr ''m'')]])]"

definition snapshot_zero_severity :: json where
  "snapshot_zero_severity = JArr [JObj file_zero_severity]"

definition text_two_files :: string where
  \<open>text_two_files = ''[{"file": "/proj/a.py", "diagnostics": [{"severity": 1}, {"severity": 2}]}, {"file": "/proj/b.py", "diagnostics": []}]''\<close>

definition file_two_entries :: json where
  "file_two_entries =
     JObj [(''file'', JStr ''/proj/a.py''),
           (''diagnostics'', JArr [JObj [(''severity'', JInt 1)], JObj [(''severity'', JInt 2)]])]"

definition file_no_entries :: json where
  "file_no_entries = JObj [(''file'', JStr ''/proj/b.py''), (''diagnostics'', JArr [])]"

definition text_json_string :: string where
  \<open>text_json_string = ''"abc"''\<close>

definition text_missing_file_field :: string where
  \<open>text_missing_file_field = ''[{"diagnostics": [{"severity": 0}]}]''\<close>

definition sample_table :: "(string \<times> json) list" where
  "sample_table =
       [(text_scenario_A, snapshot_A),
        (text_scenario_B, snapshot_B),
        (text_no_severity, snapshot_no_severity),
        (text_zero_severity, snapshot_zero_severity),
        (text_two_files, JArr [file_two_entries, file_no_entries]),
        (text_json_string, JStr ''abc''),
        (''7'', JInt 7),
        (text_missing_file_field,
         JArr [JObj [(''diagnostics'', JArr [JObj [(''severity'', JInt 0)]])]]),
        (''[]'', JArr [])]"

definition sample_loads :: "string \<Rightarrow> loads_result" where
  "sample_loads s =
     (case map_of sample_table s of Some v \<Rightarrow> Loaded v | None \<Rightarrow> JSONDecodeError)"

definition sample_env :: "(nat \<Rightarrow> file_obs) \<Rightarrow> env" where
  "sample_env observations =
     \<lparr>located_init = True,
      exists_after_settle = True,
      located_again = True,
      probe = observations,
      json_loads = sample_loads,
      path_name = base_name,
      relative_to_root = under_proj,
      py_repr = (\<lambda>v. ''?''),
      stdout_accepts = (\<lambda>p. True)\<rparr>"

text \<open>
  The same system with a console whose encoding is ASCII (as with
  \<^verbatim>\<open>PYTHONIOENCODING=ascii\<close>; outside Windows \<^verbatim>\<open>ensure_utf8_output\<close> changes nothing):
  \<^verbatim>\<open>print\<close> accepts a text whose bytes are all below \<open>0x80\<close>. The text of
  \<^verbatim>\<open>json.dumps(v, ensure_ascii=False)\<close> holds the strings of \<open>v\<close> as they are, so it is
  ASCII exactly when they are.
\<close>

definition ascii_text :: "string \<Rightarrow> bool" where
  "ascii_text s = list_all (\<lambda>c. \<not> digit7 c) s"

fun ascii_json :: "json \<Rightarrow> bool" where
  "ascii_json (JStr s) = ascii_text s"
| "ascii_json (JArr xs) = list_all ascii_json xs"
| "ascii_json (JObj kv) = list_all (\<lambda>p. ascii_text (fst p) \<and> ascii_json (snd p)) kv"
| "ascii_json JNull = True"
| "ascii_json (JBool b) = True"
| "ascii_json (JInt i) = True"
| "ascii_json (JFloat f) = True"

definition ascii_console :: "printed \<Rightarrow> bool" where
  "ascii_console p = (case p of PrintJson v \<Rightarrow> ascii_json v | PrintLine s \<Rightarrow> ascii_text s)"

definition ascii_env :: "(nat \<Rightarrow> file_obs) \<Rightarrow> env" where
  "ascii_env observations = (sample_env observations)\<lparr>stdout_accepts := ascii_console\<rparr>"

section \<open>Properties of the Retrying Reader\<close>

lemma load_attempts_attempts_le:
  "attempts (snd (load_attempts env k a st)) \<le> attempts st + k"
proof (induction k arbitrary: a st)
  case 0
  show ?case by simp
next
  case (Suc k)
  have IH: "\<And>a' st'. attempts st' = Suc (attempts st) \<Longrightarrow>
      attempts (snd (load_attempts env k a' st')) \<le> Suc (attempts st + k)"
    using Suc.IH by (metis add_Suc)
  show ?case
    by (auto simp: Let_def sleep_def handle_failure_def
        split: file_obs.splits loads_result.splits intro!: IH)
qed

lemma load_attempts_absent:
  "(\<And>i. i < k \<Longrightarrow> probe env (a + i) = Absent) \<Longrightarrow>
   load_attempts env k a st =
     (Inr (JArr []), st\<lparr>attempts := attempts st + k, slept := slept st + k\<rparr>)"
proof (induction k arbitrary: a st)
  case 0
  show ?case by simp
next
  case (Suc k)
  have here: "probe env a = Absent" using Suc.prems [of 0] by simp
  have later: "\<And>i. i < k \<Longrightarrow> probe env (Suc a + i) = Absent"
    using Suc.prems [of "Suc _"] by simp
  show ?case
    by (simp add: here Let_def sleep_def Suc.IH [of "Suc a", OF later])
qed

lemma load_attempts_success_now:
  "probe env a = Stripped content \<Longrightarrow> content \<noteq> [] \<Longrightarrow> json_loads env content = Loaded v \<Longrightarrow>
   load_attempts env (Suc k) a st = (Inr v, st\<lparr>attempts := attempts st + 1\<rparr>)"
  by (simp add: Let_def)

text \<open>
  C3. The claim is that the reader makes at most 5 attempts and never raises. The bound on
  the attempts holds (\<open>load_attempts_attempts_le\<close>), a parsed value is returned at once
  (\<open>load_attempts_success_now\<close>) and an always absent file gives 5 attempts and the empty
  snapshot (\<open>load_attempts_absent\<close>). But the reader does raise: when the bytes of the file
  are not valid UTF-8, \<^verbatim>\<open>f.read()\<close> raises \<^verbatim>\<open>UnicodeDecodeError\<close>, which the handler
  \<^verbatim>\<open>except (json.JSONDecodeError, OSError, PermissionError)\<close> does not catch. The first
  attempt ends the call with that exception, and the program with exit status 1.
\<close>

theorem reader_raises_on_undecodable_file:
  "load_diagnostics (sample_env (\<lambda>i. Undecodable)) True initial_state =
     (Inl UnicodeDecodeError, \<lparr>slept = 0, attempts = 1, failure_log = []\<rparr>) \<and>
   main (sample_env (\<lambda>i. Undecodable)) ''PostToolUse'' = ([], 1)"
  by (simp add: main_def dispatch_def check_and_report_def generate_reason_markdown_def
      bind_err_def load_diagnostics_def sample_env_def initial_state_def sleep_def Let_def
      eval_nat_numeral)

text \<open>
  C9. The claim is that a run in which all 5 attempts fail waits between the attempts but
  not after the last one, 4 units in all. That is what the exception handler does, which
  sleeps only when \<^verbatim>\<open>attempt < 4\<close>. The three \<^verbatim>\<open>time.sleep(1); continue\<close> branches for an
  absent file, a file of size zero and blank content have no such test: with the file absent
  on every attempt the reader sleeps after the fifth attempt too, 5 units in all.
\<close>

theorem reader_sleeps_after_last_attempt_when_absent:
  "load_diagnostics (sample_env (\<lambda>i. Absent)) True initial_state =
     (Inr (JArr []), \<lparr>slept = 5, attempts = 5, failure_log = []\<rparr>) \<and>
   load_diagnostics (sample_env (\<lambda>i. OsError)) True initial_state =
     (Inr (JArr []), \<lparr>slept = 4, attempts = 5, failure_log = [5]\<rparr>)"
  by (simp add: load_diagnostics_def sample_env_def initial_state_def sleep_def
      handle_failure_def Let_def eval_nat_numeral)

section \<open>Properties of the Statistics Aggregator\<close>

lemma counter_get_incr:
  "counter_get (counter_incr c k) k' = counter_get c k' + (if k' = k then 1 else 0)"
  by (simp add: counter_get_def counter_incr_def)

lemma foldl_counter_incr:
  "foldl counter_incr c ls k =
     (if k \<in> set ls then Some (counter_get c k + count_list ls k) else c k)"
proof (induction ls arbitrary: c)
  case Nil
  show ?case by simp
next
  case (Cons l ls)
  show ?case
    by (simp add: Cons.IH counter_get_incr) (simp add: counter_incr_def counter_get_def)
qed

lemma foldl_counter_incr_empty:
  "foldl counter_incr Map.empty ls k =
     (if count_list ls k = 0 then None else Some (count_list ls k))"
  by (simp add: foldl_counter_incr counter_get_def count_list_0_iff)

lemma severity_name_of_label:
  "severity_name_of d = Inr l \<Longrightarrow> label_of d = l"
  by (simp add: label_of_def)

lemma is_entry_severity_name:
  "is_entry d \<Longrightarrow> severity_name_of d = Inr (label_of d)"
  by (auto simp: is_entry_def label_of_def severity_name_of_def bind_err_def severity_map_get_def
      split: json.splits option.splits)

lemma count_severities_labels:
  "\<forall>d\<in>set ds. severity_name_of d = Inr (label_of d) \<Longrightarrow>
   count_severities ds c = Inr (foldl counter_incr c (map label_of ds))"
  by (induction ds arbitrary: c) simp_all

lemma snapshot_labels_Cons:
  "snapshot_labels (f # fs) = map label_of (entries_of f) @ snapshot_labels fs"
  by (simp add: snapshot_labels_def)

lemma is_file_diagnostics_step:
  assumes "is_file_diagnostics f"
  shows "\<exists>diagnostics. py_get f ''diagnostics'' (JArr []) = Inr diagnostics \<and>
           py_len diagnostics = Inr (length (entries_of f)) \<and>
           py_iter diagnostics = Inr (entries_of f) \<and>
           diagnostics = JArr (entries_of f) \<and>
           list_all is_entry (entries_of f)"
  using assms
  by (auto simp: is_file_diagnostics_def entries_of_def split: json.splits option.splits)

lemma analyze_files_snapshot:
  "list_all is_file_diagnostics fs \<Longrightarrow>
   analyze_files fs st =
     Inr \<lparr>total_files = total_files st + length fs,
          total_diagnostics = total_diagnostics st + sum_list (map (\<lambda>f. length (entries_of f)) fs),
          by_severity = foldl counter_incr (by_severity st) (snapshot_labels fs)\<rparr>"
proof (induction fs arbitrary: st)
  case Nil
  show ?case by (simp add: snapshot_labels_def)
next
  case (Cons f fs)
  from Cons.prems have f: "is_file_diagnostics f" and fs: "list_all is_file_diagnostics fs"
    by simp_all
  from is_file_diagnostics_step [OF f] obtain diagnostics where
    d: "py_get f ''diagnostics'' (JArr []) = Inr diagnostics"
       "py_len diagnostics = Inr (length (entries_of f))"
       "py_iter diagnostics = Inr (entries_of f)"
       "list_all is_entry (entries_of f)"
    by blast
  have c: "count_severities (entries_of f) (by_severity st) =
      Inr (foldl counter_incr (by_severity st) (map label_of (entries_of f)))"
    using d(4) by (intro count_severities_labels) (simp add: list_all_iff is_entry_severity_name)
  show ?case
    by (simp add: d c Cons.IH [OF fs] snapshot_labels_Cons)
qed

lemma analyze_statistics_snapshot:
  "is_snapshot (JArr fs) \<Longrightarrow>
   analyze_statistics (JArr fs) =
     Inr \<lparr>total_files = length fs,
          total_diagnostics = sum_list (map (\<lambda>f. length (entries_of f)) fs),
          by_severity = foldl counter_incr Map.empty (snapshot_labels fs)\<rparr>"
  by (simp add: is_snapshot_def analyze_statistics_def analyze_files_snapshot)

lemma mset_snapshot_labels:
  "mset fs' = mset fs \<Longrightarrow> mset (snapshot_labels fs') = mset (snapshot_labels fs)"
proof -
  assume eq: "mset fs' = mset fs"
  have "mset (snapshot_labels xs) = (\<Sum>f\<in>#mset xs. mset (map label_of (entries_of f)))" for xs
    by (induction xs) (simp_all add: snapshot_labels_def)
  then show ?thesis using eq by simp
qed

lemma sum_list_entries_perm:
  "mset fs' = mset fs \<Longrightarrow>
   sum_list (map (\<lambda>f. length (entries_of f)) fs') = sum_list (map (\<lambda>f. length (entries_of f)) fs)"
proof -
  assume eq: "mset fs' = mset fs"
  have "sum_list (map g xs) = (\<Sum>f\<in>#mset xs. g f)" for xs :: "json list" and g :: "json \<Rightarrow> nat"
    by (induction xs) simp_all
  then show ?thesis using eq by simp
qed

lemma foldl_counter_incr_perm:
  "mset ls' = mset ls \<Longrightarrow> foldl counter_incr c ls' = foldl counter_incr c ls"
proof
  fix k
  assume eq: "mset ls' = mset ls"
  have "set ls' = set ls" using eq by (rule mset_eq_setD)
  moreover have "count_list ls' k = count_list ls k"
    using eq by (metis count_mset)
  ultimately show "foldl counter_incr c ls' k = foldl counter_incr c ls k"
    by (simp add: foldl_counter_incr)
qed

lemma is_snapshot_perm:
  "mset fs' = mset fs \<Longrightarrow> is_snapshot (JArr fs') = is_snapshot (JArr fs)"
  by (simp add: is_snapshot_def list_all_iff) (metis mset_eq_setD)


text \<open>
  C5. For every snapshot the aggregator returns statistics in which \<open>total_files\<close> is the
  number of file objects (a file with no entries counts once), \<open>total_diagnostics\<close>
  is the sum of the numbers of entries of the files, and which are the same for every
  permutation of the files. (\<open>by_severity\<close> is compared as Python compares dicts, without
  regard to the order of insertion.)
\<close>

theorem statistics_totals_and_order_independence:
  assumes "is_snapshot (JArr fs)"
  shows "\<exists>s. analyze_statistics (JArr fs) = Inr s \<and>
           total_files s = length fs \<and>
           total_diagnostics s = sum_list (map (\<lambda>f. length (entries_of f)) fs) \<and>
           (\<forall>fs'. mset fs' = mset fs \<longrightarrow> analyze_statistics (JArr fs') = Inr s)"
proof (intro exI conjI allI impI)
  show here: "analyze_statistics (JArr fs) =
      Inr \<lparr>total_files = length fs,
          total_diagnostics = sum_list (map (\<lambda>f. length (entries_of f)) fs),
          by_severity = foldl counter_incr Map.empty (snapshot_labels fs)\<rparr>"
    using assms by (rule analyze_statistics_snapshot)
  show "total_files \<lparr>total_files = length fs,
          total_diagnostics = sum_list (map (\<lambda>f. length (entries_of f)) fs),
          by_severity = foldl counter_incr Map.empty (snapshot_labels fs)\<rparr> = length fs"
    by simp
  show "total_diagnostics \<lparr>total_files = length fs,
          total_diagnostics = sum_list (map (\<lambda>f. length (entries_of f)) fs),
          by_severity = foldl counter_incr Map.empty (snapshot_labels fs)\<rparr> =
        sum_list (map (\<lambda>f. length (entries_of f)) fs)"
    by simp
next
  fix fs'
  assume eq: "mset fs' = mset fs"
  have "is_snapshot (JArr fs')" using assms is_snapshot_perm [OF eq] by blast
  then have there: "analyze_statistics (JArr fs') =
      Inr \<lparr>total_files = length fs',
        total_diagnostics = sum_list (map (\<lambda>f. length (entries_of f)) fs'),
        by_severity = foldl counter_incr Map.empty (snapshot_labels fs')\<rparr>"
    by (rule analyze_statistics_snapshot)
  have len: "length fs' = length fs" using eq by (rule mset_eq_length)
  have tot: "sum_list (map (\<lambda>f. length (entries_of f)) fs') =
      sum_list (map (\<lambda>f. length (entries_of f)) fs)"
    using eq by (rule sum_list_entries_perm)
  have sev: "foldl counter_incr Map.empty (snapshot_labels fs') =
      foldl counter_incr Map.empty (snapshot_labels fs)"
    using eq by (intro foldl_counter_incr_perm mset_snapshot_labels)
  show "analyze_statistics (JArr fs') =
      Inr \<lparr>total_files = length fs,
          total_diagnostics = sum_list (map (\<lambda>f. length (entries_of f)) fs),
          by_severity = foldl counter_incr Map.empty (snapshot_labels fs)\<rparr>"
    unfolding there len tot sev by (rule refl)
qed

lemma is_snapshot_two_files: "is_snapshot (JArr [file_two_entries, file_no_entries])"
  by (simp add: is_snapshot_def is_file_diagnostics_def is_entry_def file_two_entries_def
      file_no_entries_def)

theorem statistics_totals_and_order_independence_witness:
  "is_snapshot (JArr [file_two_entries, file_no_entries]) \<and>
   (\<exists>s. analyze_statistics (JArr [file_two_entries, file_no_entries]) = Inr s \<and>
        total_files s = 2 \<and> total_diagnostics s = 2 \<and>
        analyze_statistics (JArr [file_no_entries, file_two_entries]) = Inr s)"
proof -
  from statistics_totals_and_order_independence [OF is_snapshot_two_files]
  obtain s where s: "analyze_statistics (JArr [file_two_entries, file_no_entries]) = Inr s"
    "total_files s = length [file_two_entries, file_no_entries]"
    "total_diagnostics s =
       sum_list (map (\<lambda>f. length (entries_of f)) [file_two_entries, file_no_entries])"
    "\<forall>fs'. mset fs' = mset [file_two_entries, file_no_entries] \<longrightarrow>
       analyze_statistics (JArr fs') = Inr s"
    by blast
  have "mset [file_no_entries, file_two_entries] = mset [file_two_entries, file_no_entries]"
    by simp
  with s(4) have "analyze_statistics (JArr [file_no_entries, file_two_entries]) = Inr s"
    by blast
  moreover have "total_diagnostics s = 2"
    using s(3) by (simp add: entries_of_def file_two_entries_def file_no_entries_def)
  ultimately show ?thesis
    using s(1,2) is_snapshot_two_files by auto
qed

text \<open>
  C6. The claim is that \<open>by_severity\<close> has all four severities as keys, with value 0 for a
  severity without entries. \<^verbatim>\<open>dict(severity_count)\<close> holds only the keys that were
  incremented: for the snapshot of Scenario A the mapping is \<^verbatim>\<open>{"Error": 1}\<close>, and for the
  empty snapshot it is empty.
\<close>

theorem by_severity_lacks_absent_labels_counterexample:
  "\<not> isl (analyze_statistics snapshot_A) \<and>
   by_severity (projr (analyze_statistics snapshot_A)) ''Error'' = Some 1 \<and>
   by_severity (projr (analyze_statistics snapshot_A)) ''Warning'' = None \<and>
   by_severity (projr (analyze_statistics snapshot_A)) ''Information'' = None \<and>
   by_severity (projr (analyze_statistics snapshot_A)) ''Hint'' = None \<and>
   \<not> isl (analyze_statistics (JArr [])) \<and>
   by_severity (projr (analyze_statistics (JArr []))) ''Error'' = None"
  by (simp add: snapshot_A_def file_A_def analyze_statistics_def severity_name_of_def bind_err_def
      severity_map_get_def SEVERITY_MAP_def counter_incr_def counter_get_def)

text \<open>
  C6, as the code has it: for every snapshot the keys of \<open>by_severity\<close> are the labels that
  at least one entry has, each with the number of such entries; a label without entries is
  not a key, and is read as 0 by \<^verbatim>\<open>.get(label, 0)\<close>, which is how the renderer reads
  \<^verbatim>\<open>Error\<close> and \<^verbatim>\<open>Warning\<close>.
\<close>

theorem by_severity_holds_occurring_labels:
  assumes "is_snapshot (JArr fs)"
  shows "\<exists>s. analyze_statistics (JArr fs) = Inr s \<and>
           (\<forall>l. by_severity s l =
                  (if count_list (snapshot_labels fs) l = 0 then None
                   else Some (count_list (snapshot_labels fs) l)) \<and>
                counter_get (by_severity s) l = count_list (snapshot_labels fs) l)"
  using assms
  by (simp add: analyze_statistics_snapshot foldl_counter_incr_empty counter_get_def)

lemma is_snapshot_A: "is_snapshot (JArr [file_A])"
  by (simp add: file_A_def is_snapshot_def is_file_diagnostics_def is_entry_def)

lemma snapshot_labels_A: "snapshot_labels [file_A] = [''Error'']"
  by (simp add: file_A_def snapshot_labels_def entries_of_def label_of_def severity_name_of_def
      bind_err_def severity_map_get_def SEVERITY_MAP_def)

theorem by_severity_holds_occurring_labels_witness:
  "is_snapshot snapshot_A \<and>
   (\<exists>s. analyze_statistics snapshot_A = Inr s \<and>
        by_severity s ''Error'' = Some 1 \<and> by_severity s ''Warning'' = None \<and>
        counter_get (by_severity s) ''Warning'' = 0)"
proof -
  from by_severity_holds_occurring_labels [OF is_snapshot_A]
  obtain s where s: "analyze_statistics (JArr [file_A]) = Inr s"
    and every: "\<And>l. by_severity s l =
        (if count_list (snapshot_labels [file_A]) l = 0 then None
         else Some (count_list (snapshot_labels [file_A]) l))"
      "\<And>l. counter_get (by_severity s) l = count_list (snapshot_labels [file_A]) l"
    by blast
  have "by_severity s ''Error'' = Some 1" "by_severity s ''Warning'' = None"
    "counter_get (by_severity s) ''Warning'' = 0"
    by (simp_all add: every snapshot_labels_A)
  with s is_snapshot_A show ?thesis by (simp add: snapshot_A_def)
qed

lemma count_severities_cong:
  "map severity_name_of ds = map severity_name_of ds' \<Longrightarrow>
   count_severities ds c = count_severities ds' c"
proof (induction ds arbitrary: ds' c)
  case Nil
  then show ?case by simp
next
  case (Cons d ds)
  then obtain d' rest where ds': "ds' = d' # rest" by (cases ds') auto
  with Cons.prems have "severity_name_of d = severity_name_of d'"
    and "map severity_name_of ds = map severity_name_of rest" by simp_all
  then show ?case using Cons.IH [of rest] by (simp add: ds' split: sum.splits)
qed

lemma analyze_files_append:
  "analyze_files (xs @ ys) st =
     (case analyze_files xs st of Inl e \<Rightarrow> Inl e | Inr st' \<Rightarrow> analyze_files ys st')"
  by (induction xs arbitrary: st) (simp_all split: sum.splits)

lemma severity_name_missing:
  "map_of kv ''severity'' = None \<Longrightarrow> severity_name_of (JObj kv) = Inr ''Error''"
  by (simp add: severity_name_of_def bind_err_def severity_map_get_def SEVERITY_MAP_def)

lemma severity_name_zero:
  "severity_name_of (JObj ((''severity'', JInt 0) # kv)) = Inr ''Error''"
  by (simp add: severity_name_of_def bind_err_def severity_map_get_def SEVERITY_MAP_def)

text \<open>
  C4. An entry without a \<^verbatim>\<open>severity\<close> field is counted as the same entry with
  \<^verbatim>\<open>severity: 0\<close> is: both get the label \<^verbatim>\<open>Error\<close>, and replacing one by the other
  anywhere in a snapshot leaves the result of the aggregator unchanged (also when the
  aggregator raises).
\<close>

theorem missing_severity_counted_as_explicit_zero:
  assumes missing: "map_of kv ''severity'' = None"
    and fd: "map_of fd ''diagnostics'' = Some (JArr (pre @ JObj kv # post))"
    and fd': "map_of fd' ''diagnostics'' =
                Some (JArr (pre @ JObj ((''severity'', JInt 0) # kv) # post))"
  shows "severity_name_of (JObj kv) = Inr ''Error'' \<and>
         severity_name_of (JObj ((''severity'', JInt 0) # kv)) = Inr ''Error'' \<and>
         analyze_statistics (JArr (fs1 @ JObj fd # fs2)) =
           analyze_statistics (JArr (fs1 @ JObj fd' # fs2))"
proof -
  have same: "count_severities (pre @ JObj kv # post) c =
      count_severities (pre @ JObj ((''severity'', JInt 0) # kv) # post) c" for c
    by (rule count_severities_cong)
      (simp add: severity_name_missing [OF missing] severity_name_zero)
  have step: "analyze_files (JObj fd # fs2) st = analyze_files (JObj fd' # fs2) st" for st
    by (simp add: fd fd' same)
  have whole: "analyze_files (fs1 @ JObj fd # fs2) st = analyze_files (fs1 @ JObj fd' # fs2) st"
    for st
    by (cases "analyze_files fs1 st") (simp_all only: analyze_files_append sum.case step)
  have labels: "severity_name_of (JObj kv) = Inr ''Error''"
    "severity_name_of (JObj ((''severity'', JInt 0) # kv)) = Inr ''Error''"
    by (rule severity_name_missing [OF missing], rule severity_name_zero)
  have "analyze_statistics (JArr (fs1 @ JObj fd # fs2)) =
      analyze_statistics (JArr (fs1 @ JObj fd' # fs2))"
    unfolding analyze_statistics_def py_iter.simps sum.case by (rule whole)
  with labels show ?thesis by blast
qed


theorem missing_severity_counted_as_explicit_zero_witness:
  "map_of [(''message'', JStr ''m'')] ''severity'' = None \<and>
   analyze_statistics snapshot_no_severity = analyze_statistics snapshot_zero_severity \<and>
   \<not> isl (analyze_statistics snapshot_no_severity) \<and>
   by_severity (projr (analyze_statistics snapshot_no_severity)) ''Error'' = Some 1"
proof -
  have m: "map_of [(''message'', JStr ''m'')] ''severity'' = None" by simp
  have fd: "map_of file_no_severity ''diagnostics'' =
      Some (JArr ([] @ JObj [(''message'', JStr ''m'')] # []))"
    by (simp add: file_no_severity_def)
  have fd': "map_of file_zero_severity ''diagnostics'' =
      Some (JArr ([] @ JObj ((''severity'', JInt 0) # [(''message'', JStr ''m'')]) # []))"
    by (simp add: file_zero_severity_def)
  have "analyze_statistics snapshot_no_severity = analyze_statistics snapshot_zero_severity"
    using missing_severity_counted_as_explicit_zero [OF m fd fd', of "[]" "[]"]
    by (simp add: snapshot_no_severity_def snapshot_zero_severity_def)
  moreover have "\<not> isl (analyze_statistics snapshot_no_severity) \<and>
      by_severity (projr (analyze_statistics snapshot_no_severity)) ''Error'' = Some 1"
    by (simp add: snapshot_no_severity_def file_no_severity_def analyze_statistics_def
        severity_name_of_def bind_err_def severity_map_get_def SEVERITY_MAP_def
        counter_incr_def counter_get_def)
  ultimately show ?thesis by simp
qed

section \<open>Properties of the Report Renderer\<close>

declare str_nat.simps [simp del]

lemma is_entry_is_object: "is_entry d \<Longrightarrow> is_object d"
  by (cases d) (simp_all add: is_entry_def)

lemma count_severity_objects:
  "list_all is_object ds \<Longrightarrow> count_severity ds n = Inr (explicit_count ds n)"
proof (induction ds)
  case Nil
  show ?case by (simp add: explicit_count_def)
next
  case (Cons d ds)
  then obtain kv where d: "d = JObj kv" by (cases d) simp_all
  from Cons have IH: "count_severity ds n = Inr (explicit_count ds n)" by simp
  show ?case
    by (simp add: d IH explicit_count_def explicit_severity_def py_eq_int_def
        split: option.splits)
qed

lemma summary_text_objects:
  "list_all is_object ds \<Longrightarrow>
   summary_text ds =
     Inr (py_join '', '' (summary_parts (explicit_count ds 0) (explicit_count ds 1)
            (explicit_count ds 2) (explicit_count ds 3)))"
  by (simp add: summary_text_def bind_err_def count_severity_objects)

lemma is_object_JObj: "is_object v \<Longrightarrow> \<exists>kv. v = JObj kv"
  by (cases v) simp_all

lemma is_entry_fields:
  assumes "is_entry d"
  shows "\<exists>kv s e. d = JObj kv \<and>
           py_get d ''start'' (JObj []) = Inr (JObj s) \<and>
           py_get d ''end'' (JObj []) = Inr (JObj e)"
proof -
  from assms obtain kv where d: "d = JObj kv" by (cases d) (simp_all add: is_entry_def)
  from assms d have s: "case map_of kv ''start'' of None \<Rightarrow> True | Some v \<Rightarrow> is_object v"
    and e: "case map_of kv ''end'' of None \<Rightarrow> True | Some v \<Rightarrow> is_object v"
    by (simp_all add: is_entry_def)
  from s have "\<exists>s. py_get d ''start'' (JObj []) = Inr (JObj s)"
    by (cases "map_of kv ''start''") (auto simp: d dest: is_object_JObj)
  moreover from e have "\<exists>e. py_get d ''end'' (JObj []) = Inr (JObj e)"
    by (cases "map_of kv ''end''") (auto simp: d dest: is_object_JObj)
  ultimately show ?thesis using d by blast
qed

lemma render_diagnostic_entry:
  assumes "is_entry d"
  shows "\<exists>ls. render_diagnostic env fp d = Inr ls"
proof -
  from is_entry_fields [OF assms] obtain kv s e where
    d: "d = JObj kv" and s: "py_get d ''start'' (JObj []) = Inr (JObj s)"
    and e: "py_get d ''end'' (JObj []) = Inr (JObj e)" by blast
  have n: "severity_name_of d = Inr (label_of d)"
    using assms by (rule is_entry_severity_name)
  have rest: "py_get d k dflt = Inr (case map_of kv k of None \<Rightarrow> dflt | Some v \<Rightarrow> v)"
    for k dflt by (simp add: d)
  show ?thesis
    unfolding render_diagnostic_def n s e
    by (simp add: bind_err_def rest)
qed

lemma is_file_diagnostics_file:
  "is_file_diagnostics f \<Longrightarrow> \<exists>kv p. f = JObj kv \<and> map_of kv ''file'' = Some (JStr p)"
  by (cases f) (auto simp: is_file_diagnostics_def split: option.splits json.splits)

lemma render_diagnostics_entries:
  "list_all is_entry ds \<Longrightarrow> \<exists>ls. render_diagnostics env fp ds = Inr ls"
proof (induction ds)
  case Nil
  show ?case by simp
next
  case (Cons d ds)
  then obtain ls more where "render_diagnostic env fp d = Inr ls"
    "render_diagnostics env fp ds = Inr more"
    using render_diagnostic_entry [of d env fp] by auto
  then show ?case by simp
qed

lemma render_files_snapshot:
  "list_all is_file_diagnostics fs \<Longrightarrow> \<exists>ls. render_files env fs = Inr ls"
proof (induction fs)
  case Nil
  show ?case by simp
next
  case (Cons f fs)
  from Cons obtain rest where rest: "render_files env fs = Inr rest" by auto
  from Cons.prems have f: "is_file_diagnostics f" by simp
  from is_file_diagnostics_step [OF f] have
    d: "py_get f ''diagnostics'' (JArr []) = Inr (JArr (entries_of f))"
    and es: "list_all is_entry (entries_of f)"
    by auto
  from is_file_diagnostics_file [OF f] obtain kv p where
    kv: "f = JObj kv" "map_of kv ''file'' = Some (JStr p)" by blast
  have objs: "list_all is_object (entries_of f)"
    using es by (simp add: list_all_iff is_entry_is_object)
  from render_diagnostics_entries [OF es] obtain ls where
    ls: "render_diagnostics env p (entries_of f) = Inr ls" by blast
  have sect: "render_file env f (JArr (entries_of f)) =
      Inr ([file_heading (path_name env p)
              (py_join '', '' (summary_parts (explicit_count (entries_of f) 0)
                 (explicit_count (entries_of f) 1) (explicit_count (entries_of f) 2)
                 (explicit_count (entries_of f) 3))), []] @ ls)"
  proof -
    have gi: "py_getitem f ''file'' = Inr (JStr p)" by (simp add: kv)
    show ?thesis
      by (simp add: render_file_def bind_err_def gi summary_text_objects [OF objs] ls)
  qed
  show ?case
    by (simp add: d rest sect del: append.simps)
qed

lemma py_join_Cons:
  "py_join sep (x # xs) = x @ (if xs = [] then [] else sep @ py_join sep xs)"
  by (cases xs) simp_all

lemma py_join_header:
  "\<exists>rest. py_join newline (header errors warnings @ ls) = header_text errors warnings @ rest"
  by (simp add: header_def header_text_def py_join_Cons)

lemma reason_markdown_snapshot:
  assumes "is_snapshot (JArr fs)"
  shows "\<exists>ls. render_files env fs = Inr ls \<and>
          reason_markdown env (JArr fs) =
            (if count_list (snapshot_labels fs) ''Error'' = 0 \<and>
                count_list (snapshot_labels fs) ''Warning'' = 0
             then Inr None
             else Inr (Some (py_join newline
                    (header (count_list (snapshot_labels fs) ''Error'')
                       (count_list (snapshot_labels fs) ''Warning'') @ ls))))"
proof -
  from assms have all: "list_all is_file_diagnostics fs" by (simp add: is_snapshot_def)
  from render_files_snapshot [OF all] obtain ls where ls: "render_files env fs = Inr ls"
    by blast
  have st: "analyze_statistics (JArr fs) =
     Inr \<lparr>total_files = length fs,
          total_diagnostics = sum_list (map (\<lambda>f. length (entries_of f)) fs),
          by_severity = foldl counter_incr Map.empty (snapshot_labels fs)\<rparr>"
    using assms by (rule analyze_statistics_snapshot)
  have cg: "counter_get (foldl counter_incr Map.empty (snapshot_labels fs)) l =
      count_list (snapshot_labels fs) l" for l
    by (simp add: counter_get_def foldl_counter_incr_empty)
  have empty: "snapshot_labels [] = []"
    by (simp add: snapshot_labels_def)
  show ?thesis
    by (cases "fs = []")
      (simp_all add: reason_markdown_def bind_err_def st cg ls Let_def empty)
qed


lemma by_severity_counts:
  assumes "is_snapshot (JArr fs)"
  shows "\<exists>s. analyze_statistics (JArr fs) = Inr s \<and>
           (\<forall>l. counter_get (by_severity s) l = count_list (snapshot_labels fs) l)"
  using assms
  by (simp add: analyze_statistics_snapshot foldl_counter_incr_empty counter_get_def)

lemma reason_markdown_header:
  assumes "reason_markdown env data = Inr (Some md)"
  shows "\<exists>errors warnings rest. md = header_text errors warnings @ rest"
proof -
  from assms obtain errors warnings ls where
    "md = py_join newline (header errors warnings @ ls)"
    by (auto simp: reason_markdown_def bind_err_def Let_def split: if_splits sum.splits)
  with py_join_header [of errors warnings ls] show ?thesis by metis
qed

text \<open>
  C1. For every snapshot the renderer returns a report exactly when the aggregated count of
  \<^verbatim>\<open>Error\<close> or of \<^verbatim>\<open>Warning\<close> is positive, and \<^verbatim>\<open>None\<close> exactly when both are zero; in
  particular it returns \<^verbatim>\<open>None\<close> when every entry has the label \<^verbatim>\<open>Information\<close> or
  \<^verbatim>\<open>Hint\<close>, which includes the empty snapshot. The renderer here is the part of
  \<^verbatim>\<open>generate_reason_markdown\<close> that follows the loading of the data.
\<close>

theorem report_iff_error_or_warning:
  assumes "is_snapshot (JArr fs)"
  shows "\<exists>s. analyze_statistics (JArr fs) = Inr s \<and>
          ((\<exists>md. reason_markdown env (JArr fs) = Inr (Some md)) \<longleftrightarrow>
             (0 < counter_get (by_severity s) ''Error'' \<or>
              0 < counter_get (by_severity s) ''Warning'')) \<and>
          (reason_markdown env (JArr fs) = Inr None \<longleftrightarrow>
             (counter_get (by_severity s) ''Error'' = 0 \<and>
              counter_get (by_severity s) ''Warning'' = 0)) \<and>
          ((\<forall>l\<in>set (snapshot_labels fs). l = ''Information'' \<or> l = ''Hint'') \<longrightarrow>
             reason_markdown env (JArr fs) = Inr None)"
proof -
  let ?E = "count_list (snapshot_labels fs) ''Error''"
  let ?W = "count_list (snapshot_labels fs) ''Warning''"
  from by_severity_counts [OF assms] obtain s where
    s: "analyze_statistics (JArr fs) = Inr s"
    and cg: "\<And>l. counter_get (by_severity s) l = count_list (snapshot_labels fs) l"
    by blast
  from reason_markdown_snapshot [OF assms, of env] obtain ls where
    rm: "reason_markdown env (JArr fs) =
      (if ?E = 0 \<and> ?W = 0 then Inr None
       else Inr (Some (py_join newline (header ?E ?W @ ls))))"
    by blast
  have quiet: "?E = 0 \<and> ?W = 0"
    if "\<forall>l\<in>set (snapshot_labels fs). l = ''Information'' \<or> l = ''Hint''"
  proof -
    have "''Error'' \<notin> set (snapshot_labels fs)"
    proof
      assume "''Error'' \<in> set (snapshot_labels fs)"
      with that have "''Error'' = ''Information'' \<or> ''Error'' = ''Hint''" by (rule bspec)
      then show False by simp
    qed
    moreover have "''Warning'' \<notin> set (snapshot_labels fs)"
    proof
      assume "''Warning'' \<in> set (snapshot_labels fs)"
      with that have "''Warning'' = ''Information'' \<or> ''Warning'' = ''Hint''" by (rule bspec)
      then show False by simp
    qed
    ultimately show ?thesis by (simp only: count_list_0_iff simp_thms)
  qed
  show ?thesis
  proof (intro exI conjI)
    show "analyze_statistics (JArr fs) = Inr s" by (rule s)
    show "(\<exists>md. reason_markdown env (JArr fs) = Inr (Some md)) \<longleftrightarrow>
        (0 < counter_get (by_severity s) ''Error'' \<or> 0 < counter_get (by_severity s) ''Warning'')"
      by (simp add: rm cg)
    show "reason_markdown env (JArr fs) = Inr None \<longleftrightarrow>
        (counter_get (by_severity s) ''Error'' = 0 \<and> counter_get (by_severity s) ''Warning'' = 0)"
      by (simp add: rm cg)
    show "(\<forall>l\<in>set (snapshot_labels fs). l = ''Information'' \<or> l = ''Hint'') \<longrightarrow>
        reason_markdown env (JArr fs) = Inr None"
      using quiet by (simp add: rm)
  qed
qed


lemma digit_value_digit_char: "n < 10 \<Longrightarrow> digit_value (digit_char n) = n"
  by (auto simp: eval_nat_numeral less_Suc_eq digit_char_def digit_value_def)

lemma digit_char_not_newline: "n < 10 \<Longrightarrow> digit_char n \<noteq> CHR 0x0A"
  by (auto simp: eval_nat_numeral less_Suc_eq digit_char_def)

lemma read_nat_str_nat: "read_nat (str_nat n) = n"
proof (induction n rule: str_nat.induct)
  case (1 n)
  show ?case
  proof (cases "n < 10")
    case True
    then show ?thesis
      by (subst str_nat.simps) (simp add: read_nat_def digit_value_digit_char)
  next
    case False
    with 1 have IH: "read_nat (str_nat (n div 10)) = n div 10" by simp
    have "read_nat (str_nat n) = 10 * read_nat (str_nat (n div 10)) + digit_value (digit_char (n mod 10))"
      using False by (subst str_nat.simps) (simp add: read_nat_def)
    then show ?thesis by (simp add: IH digit_value_digit_char)
  qed
qed

lemma str_nat_inj: "str_nat m = str_nat n \<Longrightarrow> m = n"
  by (metis read_nat_str_nat)

lemma newline_notin_str_nat: "CHR 0x0A \<notin> set (str_nat n)"
proof (induction n rule: str_nat.induct)
  case (1 n)
  show ?case
  proof (cases "n < 10")
    case True
    then show ?thesis
      using digit_char_not_newline [of n] by (subst str_nat.simps) auto
  next
    case False
    with 1 have "CHR 0x0A \<notin> set (str_nat (n div 10))" by simp
    moreover have "digit_char (n mod 10) \<noteq> CHR 0x0A" by (rule digit_char_not_newline) simp
    ultimately show ?thesis using False by (subst str_nat.simps) auto
  qed
qed

lemma takeWhile_first:
  "x \<notin> set xs \<Longrightarrow> takeWhile (\<lambda>c. c \<noteq> x) (xs @ x # ys) = xs"
  by (induction xs) auto

lemma split_at_first:
  assumes "x \<notin> set xs" and "x \<notin> set xs'" and eq: "xs @ x # ys = xs' @ x # ys'"
  shows "xs = xs' \<and> ys = ys'"
proof -
  have "takeWhile (\<lambda>c. c \<noteq> x) (xs @ x # ys) = xs"
    using assms(1) by (rule takeWhile_first)
  moreover have "takeWhile (\<lambda>c. c \<noteq> x) (xs' @ x # ys') = xs'"
    using assms(2) by (rule takeWhile_first)
  ultimately have "xs = xs'" using eq by simp
  with eq show ?thesis by simp
qed

lemma header_text_inj:
  assumes "header_text e w @ r = header_text e' w' @ r'"
  shows "e = e' \<and> w = w'"
proof -
  define P where "P = summary_title @ newline @ newline @ ''- '' @ icon_error @ '' Error: ''"
  define Q where "Q = ''- '' @ icon_warning @ '' Warning: ''"
  have shape: "header_text a b @ x = P @ str_nat a @ CHR 0x0A # (Q @ str_nat b @ CHR 0x0A # x)"
    for a b x
    by (simp add: header_text_def P_def Q_def newline_def)
  from assms have "str_nat e @ CHR 0x0A # (Q @ str_nat w @ CHR 0x0A # r) =
      str_nat e' @ CHR 0x0A # (Q @ str_nat w' @ CHR 0x0A # r')"
    unfolding shape by simp
  from split_at_first [OF newline_notin_str_nat newline_notin_str_nat this]
  have 1: "str_nat e = str_nat e'"
    and 2: "Q @ str_nat w @ CHR 0x0A # r = Q @ str_nat w' @ CHR 0x0A # r'"
    by simp_all
  from 2 have "str_nat w @ CHR 0x0A # r = str_nat w' @ CHR 0x0A # r'" by simp
  from split_at_first [OF newline_notin_str_nat newline_notin_str_nat this]
  have "str_nat w = str_nat w'" by simp
  with 1 show ?thesis by (simp add: str_nat_inj)
qed

text \<open>
  C2. For every snapshot with at least one \<^verbatim>\<open>Error\<close> or \<^verbatim>\<open>Warning\<close>, the report begins
  with the summary title, an empty line, the line of U+274C with \<^verbatim>\<open>Error:\<close> and the
  aggregator's count for \<^verbatim>\<open>Error\<close>, and the line of U+26A0 U+FE0F with \<^verbatim>\<open>Warning:\<close> and
  the aggregator's count for \<^verbatim>\<open>Warning\<close>, both counts in decimal.
\<close>

theorem report_header_states_aggregated_counts:
  assumes "is_snapshot (JArr fs)"
    and "analyze_statistics (JArr fs) = Inr s"
    and "0 < counter_get (by_severity s) ''Error'' \<or> 0 < counter_get (by_severity s) ''Warning''"
  shows "(\<exists>rest. reason_markdown env (JArr fs) =
           Inr (Some (header_text (counter_get (by_severity s) ''Error'')
                        (counter_get (by_severity s) ''Warning'') @ rest))) \<and>
         (\<forall>e w r. reason_markdown env (JArr fs) = Inr (Some (header_text e w @ r)) \<longrightarrow>
            e = counter_get (by_severity s) ''Error'' \<and>
            w = counter_get (by_severity s) ''Warning'')"
proof -
  let ?E = "count_list (snapshot_labels fs) ''Error''"
  let ?W = "count_list (snapshot_labels fs) ''Warning''"
  from by_severity_counts [OF assms(1)] assms(2) have
    cg: "\<And>l. counter_get (by_severity s) l = count_list (snapshot_labels fs) l"
    by auto
  from reason_markdown_snapshot [OF assms(1), of env] obtain ls where
    rm: "reason_markdown env (JArr fs) =
      (if ?E = 0 \<and> ?W = 0 then Inr None
       else Inr (Some (py_join newline (header ?E ?W @ ls))))"
    by blast
  from py_join_header [of ?E ?W ls] obtain rest where
    "py_join newline (header ?E ?W @ ls) = header_text ?E ?W @ rest" by blast
  with rm assms(3) have here: "reason_markdown env (JArr fs) =
      Inr (Some (header_text (counter_get (by_severity s) ''Error'')
                   (counter_get (by_severity s) ''Warning'') @ rest))"
    by (auto simp: cg)
  have "e = counter_get (by_severity s) ''Error'' \<and> w = counter_get (by_severity s) ''Warning''"
    if "reason_markdown env (JArr fs) = Inr (Some (header_text e w @ r))" for e w r
  proof -
    from that here have "header_text e w @ r =
        header_text (counter_get (by_severity s) ''Error'')
          (counter_get (by_severity s) ''Warning'') @ rest"
      by simp
    then show ?thesis by (rule header_text_inj)
  qed
  with here show ?thesis by blast
qed

text \<open>
  The header is read as it is written: the title, an empty line, the two count lines, each
  ended by a newline. A decimal numeral has no newline and determines its number, so the
  counts a report states are unique.
\<close>

lemma is_snapshot_B: "is_snapshot (JArr [file_B])"
  by (simp add: file_B_def is_snapshot_def is_file_diagnostics_def is_entry_def)

lemma snapshot_labels_B: "snapshot_labels [file_B] = [''Information'']"
  by (simp add: file_B_def snapshot_labels_def entries_of_def label_of_def severity_name_of_def
      bind_err_def severity_map_get_def SEVERITY_MAP_def)

lemma is_snapshot_empty: "is_snapshot (JArr [])"
  by (simp add: is_snapshot_def)

theorem report_iff_error_or_warning_witness:
  "is_snapshot snapshot_B \<and>
   reason_markdown (sample_env (\<lambda>i. Absent)) snapshot_B = Inr None \<and>
   is_snapshot snapshot_A \<and>
   (\<exists>md. reason_markdown (sample_env (\<lambda>i. Absent)) snapshot_A = Inr (Some md)) \<and>
   is_snapshot (JArr []) \<and>
   reason_markdown (sample_env (\<lambda>i. Absent)) (JArr []) = Inr None"
proof -
  let ?env = "sample_env (\<lambda>i. Absent)"
  have b: "reason_markdown ?env (JArr [file_B]) = Inr None"
    using report_iff_error_or_warning [OF is_snapshot_B, of ?env]
    by (auto simp: snapshot_labels_B)
  have e: "reason_markdown ?env (JArr []) = Inr None"
    using report_iff_error_or_warning [OF is_snapshot_empty, of ?env]
    by (auto simp: snapshot_labels_def)
  from by_severity_counts [OF is_snapshot_A] obtain s where
    s: "analyze_statistics (JArr [file_A]) = Inr s"
    and cg: "\<And>l. counter_get (by_severity s) l = count_list (snapshot_labels [file_A]) l"
    by blast
  have "0 < counter_get (by_severity s) ''Error''"
    by (simp add: cg snapshot_labels_A)
  with s have a: "\<exists>md. reason_markdown ?env (JArr [file_A]) = Inr (Some md)"
    using report_iff_error_or_warning [OF is_snapshot_A, of ?env] by auto
  show ?thesis
    using a b e is_snapshot_A is_snapshot_B is_snapshot_empty
    by (simp add: snapshot_A_def snapshot_B_def)
qed

theorem report_header_states_aggregated_counts_witness:
  "is_snapshot snapshot_A \<and>
   (\<exists>rest. reason_markdown (sample_env (\<lambda>i. Absent)) snapshot_A =
      Inr (Some (header_text 1 0 @ rest)))"
proof -
  from by_severity_counts [OF is_snapshot_A] obtain s where
    s: "analyze_statistics (JArr [file_A]) = Inr s"
    and cg: "\<And>l. counter_get (by_severity s) l = count_list (snapshot_labels [file_A]) l"
    by blast
  have e: "counter_get (by_severity s) ''Error'' = 1"
    and w: "counter_get (by_severity s) ''Warning'' = 0"
    by (simp_all add: cg snapshot_labels_A)
  have pos: "0 < counter_get (by_severity s) ''Error'' \<or>
      0 < counter_get (by_severity s) ''Warning''"
    by (simp add: e)
  from report_header_states_aggregated_counts [OF is_snapshot_A s pos,
      of "sample_env (\<lambda>i. Absent)"]
  have "\<exists>rest. reason_markdown (sample_env (\<lambda>i. Absent)) (JArr [file_A]) =
      Inr (Some (header_text 1 0 @ rest))"
    by (simp add: e w)
  then show ?thesis using is_snapshot_A by (simp add: snapshot_A_def)
qed

lemma recognized_iff:
  "recognized d \<longleftrightarrow>
     explicit_severity d = Some 0 \<or> explicit_severity d = Some 1 \<or>
     explicit_severity d = Some 2 \<or> explicit_severity d = Some 3"
  by (simp add: recognized_def)

lemma explicit_count_filter_recognized:
  "n \<in> {0, 1, 2, 3} \<Longrightarrow> explicit_count (filter recognized ds) n = explicit_count ds n"
proof -
  assume n: "n \<in> {0, 1, 2, 3}"
  have "(recognized d \<and> explicit_severity d = Some n) = (explicit_severity d = Some n)" for d
    using n by (auto simp: recognized_iff)
  then show ?thesis by (simp add: explicit_count_def)
qed

lemma explicit_count_unrecognized:
  "n \<in> {0, 1, 2, 3} \<Longrightarrow> \<forall>d\<in>set ds. \<not> recognized d \<Longrightarrow> explicit_count ds n = 0"
proof -
  assume n: "n \<in> {0, 1, 2, 3}" and un: "\<forall>d\<in>set ds. \<not> recognized d"
  have "explicit_severity d \<noteq> Some n" if "d \<in> set ds" for d
    using un that n by (auto simp: recognized_iff)
  then show ?thesis by (simp add: explicit_count_def)
qed

lemma missing_severity_unrecognized:
  "map_of kv ''severity'' = None \<Longrightarrow> \<not> recognized (JObj kv)"
  by (simp add: recognized_iff explicit_severity_def)

lemma render_file_heading:
  assumes objs: "list_all is_object ds"
    and r: "render_file env file_data (JArr ds) = Inr ls"
  shows "\<exists>p rest. py_getitem file_data ''file'' = Inr (JStr p) \<and>
           ls = file_heading (path_name env p)
                  (py_join '', '' (summary_parts (explicit_count ds 0) (explicit_count ds 1)
                     (explicit_count ds 2) (explicit_count ds 3))) # rest"
proof -
  from r obtain fp where fp: "py_getitem file_data ''file'' = Inr fp"
    by (cases "py_getitem file_data ''file''") (simp_all add: render_file_def bind_err_def)
  from r fp obtain p where p: "fp = JStr p"
    by (cases fp) (simp_all add: render_file_def bind_err_def)
  from r show ?thesis
    by (auto simp: render_file_def bind_err_def fp p summary_text_objects [OF objs]
        split: sum.splits)
qed

text \<open>
  C10. The summary in a file heading is made of the numbers of entries whose
  \<^verbatim>\<open>severity\<close> field is present and equal to 0, 1, 2 and 3. Entries whose severity is
  missing or is no such code do not change it; when a file has only such entries the summary
  is empty and the heading ends in \<^verbatim>\<open>()\<close>. An entry without the field is nevertheless
  labelled \<^verbatim>\<open>Error\<close>, and so counted in the header of the report. (Equality is Python's:
  \<^verbatim>\<open>true\<close> and \<^verbatim>\<open>1.0\<close> equal 1.)
\<close>

theorem per_file_summary_counts_only_explicit_severities:
  assumes objs: "list_all is_object ds"
  shows "summary_text ds =
           Inr (py_join '', '' (summary_parts (explicit_count ds 0) (explicit_count ds 1)
                  (explicit_count ds 2) (explicit_count ds 3))) \<and>
         summary_text (filter recognized ds) = summary_text ds \<and>
         ((\<forall>d\<in>set ds. \<not> recognized d) \<longrightarrow> summary_text ds = Inr []) \<and>
         (\<forall>kv. map_of kv ''severity'' = None \<longrightarrow>
            \<not> recognized (JObj kv) \<and> severity_name_of (JObj kv) = Inr ''Error'') \<and>
         (\<forall>env file_data ls. render_file env file_data (JArr ds) = Inr ls \<longrightarrow>
            (\<exists>p rest. py_getitem file_data ''file'' = Inr (JStr p) \<and>
               ls = file_heading (path_name env p)
                      (py_join '', '' (summary_parts (explicit_count ds 0) (explicit_count ds 1)
                         (explicit_count ds 2) (explicit_count ds 3))) # rest))"
proof (intro conjI allI impI)
  show st: "summary_text ds =
      Inr (py_join '', '' (summary_parts (explicit_count ds 0) (explicit_count ds 1)
             (explicit_count ds 2) (explicit_count ds 3)))"
    using objs by (rule summary_text_objects)
  have "list_all is_object (filter recognized ds)"
    using objs by (simp add: list_all_iff)
  then show "summary_text (filter recognized ds) = summary_text ds"
    by (simp add: st summary_text_objects explicit_count_filter_recognized)
next
  assume "\<forall>d\<in>set ds. \<not> recognized d"
  then have "explicit_count ds 0 = 0" "explicit_count ds 1 = 0" "explicit_count ds 2 = 0"
    "explicit_count ds 3 = 0"
    by (simp_all add: explicit_count_unrecognized)
  then show "summary_text ds = Inr []"
    by (simp add: summary_text_objects [OF objs] summary_parts_def)
next
  fix kv :: "(string \<times> json) list"
  assume "map_of kv ''severity'' = None"
  then show "\<not> recognized (JObj kv)" "severity_name_of (JObj kv) = Inr ''Error''"
    by (simp_all add: missing_severity_unrecognized severity_name_missing)
next
  fix env file_data ls
  assume "render_file env file_data (JArr ds) = Inr ls"
  with objs show "\<exists>p rest. py_getitem file_data ''file'' = Inr (JStr p) \<and>
      ls = file_heading (path_name env p)
             (py_join '', '' (summary_parts (explicit_count ds 0) (explicit_count ds 1)
                (explicit_count ds 2) (explicit_count ds 3))) # rest"
    by (rule render_file_heading)
qed


lemma report_no_severity:
  "reason_markdown (sample_env (\<lambda>i. Absent)) snapshot_no_severity =
     Inr (Some (header_text 1 0 @ newline @ heading_prefix @ ''c.py ()'' @ newline @ newline @
       pos_prefix @ ''0'' @ pos_mid @ ''0-0** - '' @ icon_error @ '' Error'' @ newline @
       msg_prefix @ ''m'' @ newline @
       path_prefix @ ''c.py'' @ [CHR 0x60] @ newline))"
  by (simp add: reason_markdown_def snapshot_no_severity_def file_no_severity_def
      analyze_statistics_def bind_err_def severity_name_of_def severity_map_get_def
      SEVERITY_MAP_def counter_incr_def counter_get_def render_file_def summary_text_def
      py_eq_int_def summary_parts_def file_heading_def render_diagnostic_def header_def
      header_text_def sample_env_def base_name_def under_proj_def relativize_def icon_of_def
      SEVERITY_ICONS_def str_int_def str_nat.simps digit_char_def Let_def)

theorem per_file_summary_counts_only_explicit_severities_witness:
  "list_all is_object [JObj [(''message'', JStr ''m'')]] \<and>
   summary_text [JObj [(''message'', JStr ''m'')]] = Inr [] \<and>
   \<not> recognized (JObj [(''message'', JStr ''m'')]) \<and>
   severity_name_of (JObj [(''message'', JStr ''m'')]) = Inr ''Error'' \<and>
   (\<exists>rest. reason_markdown (sample_env (\<lambda>i. Absent)) snapshot_no_severity =
      Inr (Some (header_text 1 0 @ newline @ heading_prefix @ ''c.py ()'' @ rest)))"
proof -
  have objs: "list_all is_object [JObj [(''message'', JStr ''m'')]]" by simp
  have m: "map_of [(''message'', JStr ''m'')] ''severity'' = None" by simp
  note facts = per_file_summary_counts_only_explicit_severities [OF objs]
  from facts m have un: "\<not> recognized (JObj [(''message'', JStr ''m'')])"
    and err: "severity_name_of (JObj [(''message'', JStr ''m'')]) = Inr ''Error''"
    by blast+
  from facts have "(\<forall>d\<in>set [JObj [(''message'', JStr ''m'')]]. \<not> recognized d) \<longrightarrow>
      summary_text [JObj [(''message'', JStr ''m'')]] = Inr []"
    by (elim conjE)
  with un have s: "summary_text [JObj [(''message'', JStr ''m'')]] = Inr []" by simp
  have "\<exists>rest. reason_markdown (sample_env (\<lambda>i. Absent)) snapshot_no_severity =
      Inr (Some (header_text 1 0 @ newline @ heading_prefix @ ''c.py ()'' @ rest))"
    unfolding report_no_severity by blast
  with objs un err s show ?thesis by (intro conjI)
qed


section \<open>Properties of the Dispatch Policy\<close>

lemma generate_fst:
  "fst (generate_reason_markdown env st) = Inr r \<Longrightarrow>
   \<exists>data. reason_markdown env data = Inr r"
  by (auto simp: generate_reason_markdown_def Let_def bind_err_def split: sum.splits)

lemma header_text_not_Nil: "header_text errors warnings @ rest \<noteq> []"
  by (simp add: header_text_def summary_title_def)

lemma block_not_inject: "block_decision r \<noteq> inject_context md"
  by (simp add: block_decision_def inject_context_def)

text \<open>
  When \<^verbatim>\<open>generate_reason_markdown\<close> returns a report on the prompt-submission path,
  \<^verbatim>\<open>main\<close> prints the \<^verbatim>\<open>hookSpecificOutput\<close> object whose \<^verbatim>\<open>additionalContext\<close> is
  the banner followed at once by the report, which begins with the summary header, and ends
  with exit status 0, provided that standard output can encode that text; if it cannot,
  \<^verbatim>\<open>print\<close> raises, nothing is printed and the exit status is 1. In neither case is a
  \<^verbatim>\<open>block\<close> decision printed.
\<close>

theorem prompt_submission_injects_banner_and_report:
  assumes gen: "fst (generate_reason_markdown env initial_state) = Inr (Some md)"
  shows "main env ''UserPromptSubmit'' =
           (if stdout_accepts env (inject_context md) then ([inject_context md], 0)
            else ([], 1)) \<and>
         inject_context md =
           PrintJson (JObj [(''hookSpecificOutput'',
             JObj [(''hookEventName'', JStr ''UserPromptSubmit''),
                   (''additionalContext'', JStr (emphasis @ md))])]) \<and>
         (\<exists>errors warnings rest. md = header_text errors warnings @ rest) \<and>
         (\<forall>r. block_decision r \<notin> set (fst (main env ''UserPromptSubmit'')))"
proof -
  from generate_fst [OF gen] obtain data where "reason_markdown env data = Inr (Some md)"
    by blast
  then have hd: "\<exists>errors warnings rest. md = header_text errors warnings @ rest"
    by (rule reason_markdown_header)
  then have ne: "md \<noteq> []" using header_text_not_Nil by auto
  have m: "main env ''UserPromptSubmit'' =
      (if stdout_accepts env (inject_context md) then ([inject_context md], 0) else ([], 1))"
    by (simp add: main_def dispatch_def bind_err_def gen ne py_print_def)
  have "block_decision r \<notin> set (fst (main env ''UserPromptSubmit''))" for r
    by (simp add: m block_not_inject)
  with m hd show ?thesis by (simp add: inject_context_def)
qed

lemma text_scenario_A_not_Nil: "text_scenario_A \<noteq> []"
  by (simp add: text_scenario_A_def)

lemma reason_markdown_scenario_A:
  "reason_markdown (sample_env obs) snapshot_A = Inr (Some report_A)"
  by (simp add: reason_markdown_def snapshot_A_def file_A_def report_A_def
      analyze_statistics_def bind_err_def severity_name_of_def severity_map_get_def
      SEVERITY_MAP_def counter_incr_def counter_get_def render_file_def summary_text_def
      py_eq_int_def summary_parts_def file_heading_def render_diagnostic_def header_def
      header_text_def sample_env_def base_name_def under_proj_def relativize_def icon_of_def
      SEVERITY_ICONS_def str_int_def str_nat.simps digit_char_def Let_def)

lemma generate_scenario_A:
  "fst (generate_reason_markdown (sample_env (\<lambda>i. Stripped text_scenario_A)) initial_state) =
     Inr (Some report_A)"
proof -
  have load: "fst (load_diagnostics (sample_env (\<lambda>i. Stripped text_scenario_A)) True st) =
      Inr snapshot_A" for st
    by (simp add: load_diagnostics_def eval_nat_numeral Let_def text_scenario_A_not_Nil
        sample_env_def sample_loads_def sample_table_def)
  have env: "located_init (sample_env obs)" "exists_after_settle (sample_env obs)" for obs
    by (simp_all add: sample_env_def)
  show ?thesis
    by (simp add: generate_reason_markdown_def Let_def env load bind_err_def reason_markdown_scenario_A)
qed

theorem prompt_submission_injects_banner_and_report_witness:
  "fst (generate_reason_markdown (sample_env (\<lambda>i. Stripped text_scenario_A)) initial_state) =
     Inr (Some report_A) \<and>
   main (sample_env (\<lambda>i. Stripped text_scenario_A)) ''UserPromptSubmit'' =
     ([PrintJson (JObj [(''hookSpecificOutput'',
         JObj [(''hookEventName'', JStr ''UserPromptSubmit''),
               (''additionalContext'', JStr (emphasis @ report_A))])])], 0)"
proof -
  have acc: "stdout_accepts (sample_env obs) p" for obs p by (simp add: sample_env_def)
  from prompt_submission_injects_banner_and_report [OF generate_scenario_A]
  show ?thesis using generate_scenario_A by (simp add: acc)
qed


lemma ascii_env_simps:
  "located_init (ascii_env obs)" "exists_after_settle (ascii_env obs)"
  "probe (ascii_env obs) = obs" "json_loads (ascii_env obs) = sample_loads"
  "stdout_accepts (ascii_env obs) = ascii_console"
  by (simp_all add: ascii_env_def sample_env_def)

lemma emphasis_not_ascii: "\<not> ascii_text (emphasis @ md)"
  by (simp add: ascii_text_def emphasis_def emphasis_title_def)

lemma echo_suffix_not_ascii: "\<not> ascii_text (name @ echo_suffix)"
  by (simp add: ascii_text_def echo_suffix_def)

lemma reason_markdown_scenario_A_ascii:
  "reason_markdown (ascii_env obs) snapshot_A = Inr (Some report_A)"
  by (simp add: reason_markdown_def snapshot_A_def file_A_def report_A_def
      analyze_statistics_def bind_err_def severity_name_of_def severity_map_get_def
      SEVERITY_MAP_def counter_incr_def counter_get_def render_file_def summary_text_def
      py_eq_int_def summary_parts_def file_heading_def render_diagnostic_def header_def
      header_text_def ascii_env_def sample_env_def base_name_def under_proj_def relativize_def
      icon_of_def SEVERITY_ICONS_def str_int_def str_nat.simps digit_char_def Let_def)

lemma generate_scenario_A_ascii:
  "fst (generate_reason_markdown (ascii_env (\<lambda>i. Stripped text_scenario_A)) initial_state) =
     Inr (Some report_A)"
proof -
  have load: "fst (load_diagnostics (ascii_env (\<lambda>i. Stripped text_scenario_A)) True st) =
      Inr snapshot_A" for st
    by (simp add: load_diagnostics_def eval_nat_numeral Let_def text_scenario_A_not_Nil
        ascii_env_simps sample_loads_def sample_table_def)
  show ?thesis
    by (simp add: generate_reason_markdown_def Let_def ascii_env_simps load bind_err_def
        reason_markdown_scenario_A_ascii)
qed

lemma report_A_not_Nil: "report_A \<noteq> []"
  by (simp add: report_A_def header_text_def summary_title_def)

text \<open>
  C7. The claim is that on the prompt-submission path a report is always emitted as the
  inject-additional-context payload. The \<^verbatim>\<open>print\<close> of that payload (line 439) is not
  guarded: with the report of Scenario A and an ASCII console it raises
  \<^verbatim>\<open>UnicodeEncodeError\<close>, nothing is emitted and \<^verbatim>\<open>main\<close> ends with exit status 1. The
  branch for other events guards its \<^verbatim>\<open>print\<close> and falls back to an ASCII line, as the
  event \<^verbatim>\<open>Stop\<close> shows on the same console.
\<close>

theorem prompt_submission_payload_lost_on_ascii_console:
  "fst (generate_reason_markdown (ascii_env (\<lambda>i. Stripped text_scenario_A)) initial_state) =
     Inr (Some report_A) \<and>
   main (ascii_env (\<lambda>i. Stripped text_scenario_A)) ''UserPromptSubmit'' = ([], 1) \<and>
   main (ascii_env (\<lambda>i. Stripped text_scenario_A)) ''Stop'' =
     ([PrintLine (''Stop'' @ echo_fallback)], 0)"
proof -
  have inject: "\<not> ascii_console (inject_context report_A)"
    by (simp add: ascii_console_def inject_context_def emphasis_not_ascii)
  have first: "\<not> ascii_console (PrintLine (''Stop'' @ echo_suffix))"
    unfolding ascii_console_def printed.case by (rule echo_suffix_not_ascii)
  have second: "ascii_console (PrintLine (''Stop'' @ echo_fallback))"
    by (simp add: ascii_console_def ascii_text_def echo_fallback_def)
  have prompt: "main (ascii_env (\<lambda>i. Stripped text_scenario_A)) ''UserPromptSubmit'' = ([], 1)"
    by (simp add: main_def dispatch_def bind_err_def generate_scenario_A_ascii report_A_not_Nil
        py_print_def ascii_env_simps inject)
  have other: "main (ascii_env (\<lambda>i. Stripped text_scenario_A)) ''Stop'' =
      ([PrintLine (''Stop'' @ echo_fallback)], 0)"
    by (simp add: main_def dispatch_def echo_event_def py_print_def ascii_env_simps first second
        del: append.simps)
  from generate_scenario_A_ascii prompt other show ?thesis by (intro conjI)
qed

theorem prompt_submission_payload_lost_on_ascii_console_witness:
  "main (ascii_env (\<lambda>i. Stripped text_scenario_A)) ''UserPromptSubmit'' = ([], 1)"
  using prompt_submission_payload_lost_on_ascii_console by (elim conjE)






section \<open>Further properties of the Retrying Reader\<close>

lemma load_attempts_handled:
  "handled_failure env (probe env a) \<Longrightarrow>
   load_attempts env (Suc k) a st =
     load_attempts env k (Suc a) (handle_failure a (st\<lparr>attempts := attempts st + 1\<rparr>))"
  by (auto simp: handled_failure_def Let_def split: file_obs.splits)

text \<open>The reader makes at most five attempts, whatever it finds.\<close>

theorem reader_makes_at_most_five_attempts:
  "attempts (snd (load_diagnostics env located st)) \<le> attempts st + 5"
  using load_attempts_attempts_le [of env 5 0 st] by (simp add: load_diagnostics_def)

text \<open>An attempt whose text parses returns the parsed value at once: one attempt more is
  counted, nothing is slept and nothing is logged.\<close>

theorem reader_returns_first_parsed_value:
  assumes "probe env a = Stripped content" and "content \<noteq> []"
    and "json_loads env content = Loaded v"
  shows "load_attempts env (Suc k) a st = (Inr v, st\<lparr>attempts := attempts st + 1\<rparr>)"
  using assms by (rule load_attempts_success_now)

theorem reader_returns_first_parsed_value_witness:
  "load_diagnostics (sample_env (\<lambda>i. Stripped text_scenario_A)) True initial_state =
     (Inr snapshot_A, \<lparr>slept = 0, attempts = 1, failure_log = []\<rparr>)"
proof -
  have p: "probe (sample_env (\<lambda>i. Stripped text_scenario_A)) 0 = Stripped text_scenario_A"
    by (simp add: sample_env_def)
  have l: "json_loads (sample_env (\<lambda>i. Stripped text_scenario_A)) text_scenario_A =
      Loaded snapshot_A"
    by (simp add: sample_env_def sample_loads_def sample_table_def)
  from reader_returns_first_parsed_value [OF p text_scenario_A_not_Nil l, of 4 initial_state]
  show ?thesis by (simp add: load_diagnostics_def eval_nat_numeral initial_state_def)
qed

text \<open>With the file absent on every attempt the reader makes five attempts, sleeps after
  each of them and returns the empty snapshot.\<close>

theorem reader_gives_up_on_absent_file:
  assumes "\<forall>i<5. probe env i = Absent"
  shows "load_diagnostics env True st =
           (Inr (JArr []), st\<lparr>attempts := attempts st + 5, slept := slept st + 5\<rparr>)"
proof -
  have "\<And>i. i < 5 \<Longrightarrow> probe env (0 + i) = Absent" using assms by simp
  from load_attempts_absent [of 5 env 0 st, OF this] show ?thesis
    by (simp add: load_diagnostics_def)
qed

theorem reader_gives_up_on_absent_file_witness:
  "load_diagnostics (sample_env (\<lambda>i. Absent)) True initial_state =
     (Inr (JArr []), \<lparr>slept = 5, attempts = 5, failure_log = []\<rparr>)"
proof -
  have "\<forall>i<5. probe (sample_env (\<lambda>i. Absent)) i = Absent" by (simp add: sample_env_def)
  from reader_gives_up_on_absent_file [OF this, of initial_state]
  show ?thesis by (simp add: initial_state_def)
qed

text \<open>When every attempt ends in the exception handler, the reader sleeps after the first
  four attempts only, writes one failure line for attempt 5 and returns the empty
  snapshot.\<close>

theorem reader_waits_four_units_on_handled_failures:
  assumes "\<forall>i<5. handled_failure env (probe env i)"
  shows "load_diagnostics env True st =
           (Inr (JArr []),
            st\<lparr>attempts := attempts st + 5, slept := slept st + 4,
               failure_log := failure_log st @ [5]\<rparr>)"
proof -
  from assms have h: "handled_failure env (probe env 0)"
    "handled_failure env (probe env (Suc 0))"
    "handled_failure env (probe env (Suc (Suc 0)))"
    "handled_failure env (probe env (Suc (Suc (Suc 0))))"
    "handled_failure env (probe env (Suc (Suc (Suc (Suc 0)))))"
    by (simp_all add: eval_nat_numeral)
  have five: "(5::nat) = Suc (Suc (Suc (Suc (Suc 0))))" by simp
  show ?thesis
    unfolding load_diagnostics_def five
    by (simp add: load_attempts_handled h handle_failure_def sleep_def
        del: load_attempts.simps(2))
qed

theorem reader_waits_four_units_on_handled_failures_witness:
  "load_diagnostics (sample_env (\<lambda>i. Stripped ''not json'')) True initial_state =
     (Inr (JArr []), \<lparr>slept = 4, attempts = 5, failure_log = [5]\<rparr>)"
proof -
  have "\<forall>i<5. handled_failure (sample_env (\<lambda>i. Stripped ''not json''))
      (probe (sample_env (\<lambda>i. Stripped ''not json'')) i)"
    by (simp add: handled_failure_def sample_env_def sample_loads_def sample_table_def
      text_json_string_def text_missing_file_field_def text_scenario_A_def text_scenario_B_def
      text_no_severity_def text_zero_severity_def text_two_files_def)
  from reader_waits_four_units_on_handled_failures [OF this, of initial_state]
  show ?thesis by (simp add: initial_state_def)
qed

end
